theory Spec2Isabelle
  imports Main
begin

section \<open>Values, strings and number formatting\<close>

text \<open>
  The query compiler (\<^verbatim>\<open>query-executor.ts\<close>) and the schema introspector
  (\<^verbatim>\<open>schema-introspector.ts\<close>), both kept in
  \<^verbatim>\<open>src/server/services/encryption.ts\<close>, treat every filter and assignment value as
  \<^verbatim>\<open>unknown\<close>; the only test the compiler makes on a value is
  \<^verbatim>\<open>value === null\<close>. A value is therefore one of a small set of JavaScript
  scalars, with \<open>JObj\<close> standing for any other object (a \<^verbatim>\<open>Date\<close>, say),
  told apart by a reference number.
\<close>

datatype jsval =
    JNull
  | JUndefined
  | JBool bool
  | JNum int
  | JStr string
  | JObj nat

text \<open>
  \<^verbatim>\<open>Object.entries(o)\<close> is the ordered list of the (key, value) pairs of an
  object. The model takes that list as the object itself: the order of the list is the
  iteration order the source sees.
\<close>

type_synonym entries = "(string \<times> jsval) list"

abbreviation dquote :: char where
  "dquote \<equiv> CHR 0x22"

abbreviation backslash :: char where
  "backslash \<equiv> CHR 0x5C"

text \<open>\<^verbatim>\<open>Array.prototype.join\<close> on an array of strings.\<close>

fun join :: "string \<Rightarrow> string list \<Rightarrow> string" where
  "join sep [] = []"
| "join sep [x] = x"
| "join sep (x # y # ys) = x @ sep @ join sep (y # ys)"

text \<open>
  Template interpolation \<^verbatim>\<open>${n}\<close> of an integer number: its decimal digits, with a
  leading minus sign when negative. (Numbers are modelled as integers; JavaScript prints an
  integer this way up to \<open>10\<^sup>2\<^sup>1\<close>.)
\<close>

definition digit_char :: "nat \<Rightarrow> char" where
  "digit_char d = ''0123456789'' ! d"

fun show_nat :: "nat \<Rightarrow> string" where
  "show_nat n = (if n < 10 then [digit_char n] else show_nat (n div 10) @ [digit_char (n mod 10)])"

declare show_nat.simps [simp del]

definition show_int :: "int \<Rightarrow> string" where
  "show_int i = (if i < 0 then CHR ''-'' # show_nat (nat (- i)) else show_nat (nat i))"

section \<open>The query compiler\<close>

datatype direction = ASC | DESC

record SelectOptions =
  sel_table :: string
  sel_columns :: "string list"
  sel_where :: "entries option"
  sel_orderBy :: "(string \<times> direction) list option"
  sel_limit :: "int option"
  sel_offset :: "int option"

record InsertOptions =
  ins_table :: string
  ins_data :: entries

record UpdateOptions =
  upd_table :: string
  upd_data :: entries
  upd_where :: entries

record DeleteOptions =
  del_table :: string
  del_where :: entries

record QueryResult =
  sql :: string
  params :: "jsval list"

text \<open>A thrown \<^verbatim>\<open>Error\<close>, with its message.\<close>

datatype error = Error string

definition MAX_ROWS :: int where
  "MAX_ROWS = 1000"

text \<open>
  \<^verbatim>\<open>`"${identifier.replace(/"/g, '\\"')}"`\<close>: every double quote of the identifier is
  replaced by the two characters backslash and double quote, and the result is wrapped in
  double quotes.
\<close>

definition escapeIdentifier :: "string \<Rightarrow> string" where
  "escapeIdentifier identifier =
     dquote # concat (map (\<lambda>c. if c = dquote then [backslash, dquote] else [c]) identifier) @ [dquote]"

text \<open>
  The loop of \<^verbatim>\<open>buildWhereClause\<close>: one step for each entry, on the state
  (conditions, params, paramIndex).
\<close>

fun whereLoop :: "entries \<Rightarrow> string list \<times> jsval list \<times> nat \<Rightarrow> string list \<times> jsval list \<times> nat" where
  "whereLoop [] st = st"
| "whereLoop ((key, v) # rest) (conditions, ps, paramIndex) =
     (if v = JNull
      then whereLoop rest (conditions @ [escapeIdentifier key @ '' IS NULL''], ps, paramIndex)
      else whereLoop rest
             (conditions @ [escapeIdentifier key @ '' = $'' @ show_nat paramIndex],
              ps @ [v], paramIndex + 1))"

text \<open>The result is the pair (clause, params).\<close>

definition buildWhereClause :: "entries \<Rightarrow> nat \<Rightarrow> string \<times> jsval list" where
  "buildWhereClause wh startParamIndex =
     (case whereLoop wh ([], [], startParamIndex) of
        (conditions, ps, _) \<Rightarrow>
          (if length conditions > 0 then ''WHERE '' @ join '' AND '' conditions else [], ps))"

definition show_direction :: "direction \<Rightarrow> string" where
  "show_direction d = (case d of ASC \<Rightarrow> ''ASC'' | DESC \<Rightarrow> ''DESC'')"

text \<open>
  \<^verbatim>\<open>options.columns[0] === "*"\<close> reads \<^verbatim>\<open>undefined\<close> on an empty array, which is
  not \<^verbatim>\<open>"*"\<close>.
\<close>

definition select_columns :: "string list \<Rightarrow> string" where
  "select_columns cols =
     (case cols of
        c # _ \<Rightarrow> if c = ''*'' then ''*'' else join '', '' (map escapeIdentifier cols)
      | [] \<Rightarrow> join '', '' (map escapeIdentifier cols))"

definition select_where :: "entries option \<Rightarrow> string \<times> jsval list" where
  "select_where w =
     (case w of
        None \<Rightarrow> ([], [])
      | Some wh \<Rightarrow>
          if length wh > 0
          then (case buildWhereClause wh 1 of (clause, ps) \<Rightarrow> ('' '' @ clause, ps))
          else ([], []))"

definition select_orderBy :: "(string \<times> direction) list option \<Rightarrow> string" where
  "select_orderBy ob =
     (case ob of
        None \<Rightarrow> []
      | Some os \<Rightarrow>
          if length os > 0
          then '' ORDER BY '' @
               join '', '' (map (\<lambda>(column, d). escapeIdentifier column @ '' '' @ show_direction d) os)
          else [])"

definition select_limit :: "int option \<Rightarrow> int" where
  "select_limit l = min (case l of None \<Rightarrow> MAX_ROWS | Some n \<Rightarrow> n) MAX_ROWS"

definition select_offset :: "int option \<Rightarrow> string" where
  "select_offset off = (case off of None \<Rightarrow> [] | Some m \<Rightarrow> '' OFFSET '' @ show_int m)"

definition buildSelectQuery :: "SelectOptions \<Rightarrow> QueryResult" where
  "buildSelectQuery options =
     (case select_where (sel_where options) of
        (whereText, ps) \<Rightarrow>
          \<lparr>sql = ''SELECT '' @ select_columns (sel_columns options) @ '' FROM '' @
                 escapeIdentifier (sel_table options) @
                 whereText @
                 select_orderBy (sel_orderBy options) @
                 '' LIMIT '' @ show_int (select_limit (sel_limit options)) @
                 select_offset (sel_offset options),
           params = ps\<rparr>)"

text \<open>\<^verbatim>\<open>entries.map((_, i) => `$${i + 1}`)\<close>: the placeholders \<open>$1\<close> to \<open>$n\<close>.\<close>

definition placeholders :: "nat \<Rightarrow> string list" where
  "placeholders n = map (\<lambda>i. ''$'' @ show_nat (i + 1)) [0..<n]"

definition buildInsertQuery :: "InsertOptions \<Rightarrow> error + QueryResult" where
  "buildInsertQuery options =
     (let es = ins_data options in
      if length es = 0 then Inl (Error ''No data provided for insert'')
      else
        Inr \<lparr>sql = ''INSERT INTO '' @ escapeIdentifier (ins_table options) @ '' ('' @
                   join '', '' (map (\<lambda>(key, _). escapeIdentifier key) es) @
                   '') VALUES ('' @ join '', '' (placeholders (length es)) @ '') RETURNING *'',
             params = map snd es\<rparr>)"

text \<open>\<^verbatim>\<open>dataEntries.map(([key], i) => `${escapeIdentifier(key)} = $${i + 1}`)\<close>.\<close>

definition setClauses :: "entries \<Rightarrow> string list" where
  "setClauses es =
     map (\<lambda>(i, (key, _)). escapeIdentifier key @ '' = $'' @ show_nat (i + 1)) (enumerate 0 es)"

definition buildUpdateQuery :: "UpdateOptions \<Rightarrow> error + QueryResult" where
  "buildUpdateQuery options =
     (let dataEntries = upd_data options; whereEntries = upd_where options in
      if length dataEntries = 0 then Inl (Error ''No data provided for update'')
      else if length whereEntries = 0 then Inl (Error ''WHERE clause required for update'')
      else
        (let ps = map snd dataEntries in
         case buildWhereClause (upd_where options) (length ps + 1) of
           (clause, wps) \<Rightarrow>
             Inr \<lparr>sql = ''UPDATE '' @ escapeIdentifier (upd_table options) @ '' SET '' @
                        join '', '' (setClauses dataEntries) @ '' '' @ clause @ '' RETURNING *'',
                  params = ps @ wps\<rparr>))"

definition buildDeleteQuery :: "DeleteOptions \<Rightarrow> error + QueryResult" where
  "buildDeleteQuery options =
     (let whereEntries = del_where options in
      if length whereEntries = 0 then Inl (Error ''WHERE clause required for delete'')
      else
        (case buildWhereClause (del_where options) 1 of
           (clause, wps) \<Rightarrow>
             Inr \<lparr>sql = ''DELETE FROM '' @ escapeIdentifier (del_table options) @ '' '' @ clause @
                        '' RETURNING *'',
                  params = wps\<rparr>))"

section \<open>The database driver\<close>

text \<open>
  The \<^verbatim>\<open>pg\<close> pool is the only effect of the executor and of the introspector. A run
  is modelled by the trace of the pool operations it performs. The driver decides the
  outcome of each operation from the trace so far: a query resolves to a result or rejects
  with an error, and \<^verbatim>\<open>pool.end()\<close> resolves or rejects.
\<close>

record PostgresConfig =
  host :: string
  port :: int
  database :: string
  username :: string
  password :: string
  ssl :: "bool option"

type_synonym row = "(string \<times> jsval) list"

record PgResult =
  rows :: "row list"
  rowCount :: "int option"

datatype event =
    PoolNew PostgresConfig
  | PoolQuery string "jsval list"
  | PoolEnd

record Driver =
  query_reply :: "event list \<Rightarrow> string \<Rightarrow> jsval list \<Rightarrow> error + PgResult"
  end_reply :: "event list \<Rightarrow> error option"

definition pool_query ::
  "Driver \<Rightarrow> string \<Rightarrow> jsval list \<Rightarrow> event list \<Rightarrow> event list \<times> (error + PgResult)" where
  "pool_query drv text vals tr = (tr @ [PoolQuery text vals], query_reply drv tr text vals)"

definition pool_end :: "Driver \<Rightarrow> event list \<Rightarrow> event list \<times> error option" where
  "pool_end drv tr = (tr @ [PoolEnd], end_reply drv tr)"

text \<open>
  \<^verbatim>\<open>try { body } finally { await pool.end(); }\<close>: the pool is ended after the body,
  whatever its outcome; a rejection of \<^verbatim>\<open>pool.end()\<close> replaces the outcome of the body.
\<close>

definition try_finally :: "Driver \<Rightarrow> event list \<times> (error + 'a) \<Rightarrow> event list \<times> (error + 'a)" where
  "try_finally drv body =
     (case body of
        (tr, res) \<Rightarrow>
          (case pool_end drv tr of
             (tr', None) \<Rightarrow> (tr', res)
           | (tr', Some e) \<Rightarrow> (tr', Inl e)))"

section \<open>The query executor\<close>

record RowsResult =
  res_rows :: "row list"
  res_rowCount :: int

type_synonym SelectResult = RowsResult
type_synonym UpdateResult = RowsResult
type_synonym DeleteResult = RowsResult

text \<open>\<^verbatim>\<open>result.rows[0]\<close> is \<^verbatim>\<open>undefined\<close> (\<open>None\<close>) when no row came back.\<close>

record InsertResult =
  res_row :: "row option"

definition rows_result :: "PgResult \<Rightarrow> RowsResult" where
  "rows_result result =
     \<lparr>res_rows = rows result,
      res_rowCount = (case rowCount result of None \<Rightarrow> 0 | Some n \<Rightarrow> n)\<rparr>"

definition executeSelect ::
  "Driver \<Rightarrow> PostgresConfig \<Rightarrow> SelectOptions \<Rightarrow> event list \<times> (error + SelectResult)" where
  "executeSelect drv config options =
     try_finally drv
       (let q = buildSelectQuery options in
        case pool_query drv (sql q) (params q) [PoolNew config] of
          (tr, Inl e) \<Rightarrow> (tr, Inl e)
        | (tr, Inr result) \<Rightarrow> (tr, Inr (rows_result result)))"

definition executeInsert ::
  "Driver \<Rightarrow> PostgresConfig \<Rightarrow> InsertOptions \<Rightarrow> event list \<times> (error + InsertResult)" where
  "executeInsert drv config options =
     try_finally drv
       (case buildInsertQuery options of
          Inl e \<Rightarrow> ([PoolNew config], Inl e)
        | Inr q \<Rightarrow>
            (case pool_query drv (sql q) (params q) [PoolNew config] of
               (tr, Inl e) \<Rightarrow> (tr, Inl e)
             | (tr, Inr result) \<Rightarrow>
                 (tr, Inr \<lparr>res_row = (case rows result of [] \<Rightarrow> None | r # _ \<Rightarrow> Some r)\<rparr>)))"

definition executeUpdate ::
  "Driver \<Rightarrow> PostgresConfig \<Rightarrow> UpdateOptions \<Rightarrow> event list \<times> (error + UpdateResult)" where
  "executeUpdate drv config options =
     try_finally drv
       (case buildUpdateQuery options of
          Inl e \<Rightarrow> ([PoolNew config], Inl e)
        | Inr q \<Rightarrow>
            (case pool_query drv (sql q) (params q) [PoolNew config] of
               (tr, Inl e) \<Rightarrow> (tr, Inl e)
             | (tr, Inr result) \<Rightarrow> (tr, Inr (rows_result result))))"

definition executeDelete ::
  "Driver \<Rightarrow> PostgresConfig \<Rightarrow> DeleteOptions \<Rightarrow> event list \<times> (error + DeleteResult)" where
  "executeDelete drv config options =
     try_finally drv
       (case buildDeleteQuery options of
          Inl e \<Rightarrow> ([PoolNew config], Inl e)
        | Inr q \<Rightarrow>
            (case pool_query drv (sql q) (params q) [PoolNew config] of
               (tr, Inl e) \<Rightarrow> (tr, Inl e)
             | (tr, Inr result) \<Rightarrow> (tr, Inr (rows_result result))))"

section \<open>The schema introspector\<close>

record ColumnInfo =
  col_name :: jsval
  col_type :: jsval
  nullable :: bool
  hasDefault :: bool
  defaultValue :: jsval

record TableInfo =
  tbl_name :: jsval
  tbl_columns :: "ColumnInfo list"
  primaryKey :: "jsval list"

record SchemaInfo =
  tables :: "TableInfo list"

text \<open>Reading a property of a row: \<^verbatim>\<open>undefined\<close> when the row has no such column.\<close>

definition field :: "row \<Rightarrow> string \<Rightarrow> jsval" where
  "field r k = (case map_of r k of None \<Rightarrow> JUndefined | Some v \<Rightarrow> v)"

abbreviation nl :: char where
  "nl \<equiv> CHR 0x0A"

definition TABLES_SQL :: string where
  "TABLES_SQL = concat
     [[nl], ''      SELECT table_name'', [nl],
      ''      FROM information_schema.tables'', [nl],
      ''      WHERE table_schema = '', [CHR 0x27], ''public'', [CHR 0x27], [nl],
      ''        AND table_type = '', [CHR 0x27], ''BASE TABLE'', [CHR 0x27], [nl],
      ''      ORDER BY table_name'', [nl],
      ''    '']"

definition COLUMNS_SQL :: string where
  "COLUMNS_SQL = concat
     [[nl], ''        SELECT column_name, data_type, is_nullable, column_default'', [nl],
      ''        FROM information_schema.columns'', [nl],
      ''        WHERE table_schema = '', [CHR 0x27], ''public'', [CHR 0x27], [nl],
      ''          AND table_name = $1'', [nl],
      ''        ORDER BY ordinal_position'', [nl],
      ''      '']"

definition PK_SQL :: string where
  "PK_SQL = concat
     [[nl], ''        SELECT kcu.column_name'', [nl],
      ''        FROM information_schema.table_constraints tc'', [nl],
      ''        JOIN information_schema.key_column_usage kcu'', [nl],
      ''          ON tc.constraint_name = kcu.constraint_name'', [nl],
      ''          AND tc.table_schema = kcu.table_schema'', [nl],
      ''        WHERE tc.constraint_type = '', [CHR 0x27], ''PRIMARY KEY'', [CHR 0x27], [nl],
      ''          AND tc.table_schema = '', [CHR 0x27], ''public'', [CHR 0x27], [nl],
      ''          AND tc.table_name = $1'', [nl],
      ''        ORDER BY kcu.ordinal_position'', [nl],
      ''      '']"

definition ESTIMATE_SQL :: string where
  "ESTIMATE_SQL = concat
     [[nl], ''      SELECT reltuples::bigint AS estimate'', [nl],
      ''      FROM pg_class'', [nl],
      ''      WHERE relname = $1'', [nl],
      ''    '']"

definition column_info :: "row \<Rightarrow> ColumnInfo" where
  "column_info col =
     \<lparr>col_name = field col ''column_name'',
      col_type = field col ''data_type'',
      nullable = (field col ''is_nullable'' = JStr ''YES''),
      hasDefault = (field col ''column_default'' \<noteq> JNull),
      defaultValue = field col ''column_default''\<rparr>"

text \<open>
  The loop over the table rows: two queries for each table; a rejected query leaves the
  loop with its error.
\<close>

fun tablesLoop ::
  "Driver \<Rightarrow> row list \<Rightarrow> TableInfo list \<Rightarrow> event list \<Rightarrow> event list \<times> (error + TableInfo list)" where
  "tablesLoop drv [] tbls tr = (tr, Inr tbls)"
| "tablesLoop drv (r # rest) tbls tr =
     (let tableName = field r ''table_name'' in
      case pool_query drv COLUMNS_SQL [tableName] tr of
        (tr1, Inl e) \<Rightarrow> (tr1, Inl e)
      | (tr1, Inr columnsResult) \<Rightarrow>
          (case pool_query drv PK_SQL [tableName] tr1 of
             (tr2, Inl e) \<Rightarrow> (tr2, Inl e)
           | (tr2, Inr pkResult) \<Rightarrow>
               tablesLoop drv rest
                 (tbls @
                  [\<lparr>tbl_name = tableName,
                    tbl_columns = map column_info (rows columnsResult),
                    primaryKey = map (\<lambda>pk. field pk ''column_name'') (rows pkResult)\<rparr>])
                 tr2))"

definition introspectPostgresSchema ::
  "Driver \<Rightarrow> PostgresConfig \<Rightarrow> event list \<times> (error + SchemaInfo)" where
  "introspectPostgresSchema drv config =
     try_finally drv
       (case pool_query drv TABLES_SQL [] [PoolNew config] of
          (tr, Inl e) \<Rightarrow> (tr, Inl e)
        | (tr, Inr tablesResult) \<Rightarrow>
            (case tablesLoop drv (rows tablesResult) [] tr of
               (tr', Inl e) \<Rightarrow> (tr', Inl e)
             | (tr', Inr tbls) \<Rightarrow> (tr', Inr \<lparr>tables = tbls\<rparr>)))"

subsection \<open>Row counts\<close>

text \<open>
  A JavaScript number as far as \<^verbatim>\<open>parseInt\<close> produces one: an integer or
  \<^verbatim>\<open>NaN\<close>. (The rounding of integers beyond \<open>2\<^sup>5\<^sup>3\<close> is left out.)
\<close>

datatype jsnum = NaN | Num int

definition is_space :: "char \<Rightarrow> bool" where
  "is_space c \<longleftrightarrow> c \<in> set [CHR '' '', CHR 0x09, CHR 0x0A, CHR 0x0B, CHR 0x0C, CHR 0x0D]"

definition is_digit :: "char \<Rightarrow> bool" where
  "is_digit c \<longleftrightarrow> (48::nat) \<le> of_char c \<and> (of_char c :: nat) \<le> 57"

definition digits_val :: "string \<Rightarrow> nat" where
  "digits_val ds = foldl (\<lambda>acc c. 10 * acc + (of_char c - 48)) (0::nat) ds"

text \<open>
  \<^verbatim>\<open>parseInt(s, 10)\<close>: leading white space (here the ASCII one) is skipped, a sign is
  read, and the longest run of decimal digits is the value; \<^verbatim>\<open>NaN\<close> when there is no
  digit.
\<close>

definition parseInt :: "string \<Rightarrow> jsnum" where
  "parseInt s =
     (let t = dropWhile is_space s;
          neg = (case t of c # _ \<Rightarrow> c = CHR ''-'' | [] \<Rightarrow> False);
          u = (case t of c # r \<Rightarrow> if c = CHR ''-'' \<or> c = CHR ''+'' then r else t | [] \<Rightarrow> t);
          ds = takeWhile is_digit u
      in if ds = [] then NaN
         else Num (if neg then - int (digits_val ds) else int (digits_val ds)))"

text \<open>
  \<^verbatim>\<open>parseInt\<close> of a value that is not a string converts it to a string first. The
  columns read here are declared as strings; a number converts to its digits, and the
  string forms of the other values do not start with a digit.
\<close>

definition parseInt_val :: "jsval \<Rightarrow> jsnum" where
  "parseInt_val v = (case v of JStr s \<Rightarrow> parseInt s | JNum n \<Rightarrow> Num n | _ \<Rightarrow> NaN)"

text \<open>\<^verbatim>\<open>rows[0]?.f ?? "0"\<close>.\<close>

definition first_field_or_zero :: "row list \<Rightarrow> string \<Rightarrow> jsval" where
  "first_field_or_zero rs f =
     (let v = (case rs of [] \<Rightarrow> JUndefined | r # _ \<Rightarrow> field r f)
      in if v = JNull \<or> v = JUndefined then JStr ''0'' else v)"

text \<open>\<^verbatim>\<open>estimate < 10000\<close>; a comparison with \<^verbatim>\<open>NaN\<close> is false.\<close>

definition is_small :: "jsnum \<Rightarrow> bool" where
  "is_small estimate = (case estimate of NaN \<Rightarrow> False | Num e \<Rightarrow> e < 10000)"

definition COUNT_SQL :: "string \<Rightarrow> string" where
  "COUNT_SQL tableName = ''SELECT COUNT(*) as count FROM '' @ [dquote] @ tableName @ [dquote]"

definition getTableRowCount ::
  "Driver \<Rightarrow> PostgresConfig \<Rightarrow> string \<Rightarrow> event list \<times> (error + jsnum)" where
  "getTableRowCount drv config tableName =
     try_finally drv
       (case pool_query drv ESTIMATE_SQL [JStr tableName] [PoolNew config] of
          (tr, Inl e) \<Rightarrow> (tr, Inl e)
        | (tr, Inr estimateResult) \<Rightarrow>
            (let estimate = parseInt_val (first_field_or_zero (rows estimateResult) ''estimate'') in
             if is_small estimate
             then
               (case pool_query drv (COUNT_SQL tableName) [] tr of
                  (tr', Inl e) \<Rightarrow> (tr', Inl e)
                | (tr', Inr countResult) \<Rightarrow>
                    (tr', Inr (parseInt_val (first_field_or_zero (rows countResult) ''count''))))
             else (tr, Inr estimate)))"

section \<open>Notions used by the properties\<close>

text \<open>The values of the non-null entries of a filter map, in order.\<close>

definition nonNullValues :: "entries \<Rightarrow> jsval list" where
  "nonNullValues es = filter (\<lambda>v. v \<noteq> JNull) (map snd es)"

text \<open>The conditions of a filter map by direct recursion, numbering from \<open>n\<close>.\<close>

fun whereConditions :: "entries \<Rightarrow> nat \<Rightarrow> string list" where
  "whereConditions [] n = []"
| "whereConditions ((key, v) # rest) n =
     (if v = JNull
      then (escapeIdentifier key @ '' IS NULL'') # whereConditions rest n
      else (escapeIdentifier key @ '' = $'' @ show_nat n) # whereConditions rest (n + 1))"

fun is_query :: "event \<Rightarrow> bool" where
  "is_query (PoolQuery _ _) = True"
| "is_query _ = False"

text \<open>
  The condition for entry \<open>j\<close> of a filter map, as the specification words it: a null value
  gives \<^verbatim>\<open><col> IS NULL\<close>; any other value gives \<^verbatim>\<open><col> = $n\<close>, where \<open>n\<close> is the
  first placeholder number plus the number of non-null entries before \<open>j\<close>.
\<close>

definition spec_condition :: "entries \<Rightarrow> nat \<Rightarrow> nat \<Rightarrow> string" where
  "spec_condition w start j =
     (if snd (w ! j) = JNull then escapeIdentifier (fst (w ! j)) @ '' IS NULL''
      else escapeIdentifier (fst (w ! j)) @ '' = $'' @
           show_nat (start + length (nonNullValues (take j w))))"

definition spec_conditions :: "entries \<Rightarrow> nat \<Rightarrow> string list" where
  "spec_conditions w start = map (spec_condition w start) [0..<length w]"

text \<open>The assignments of an Update, as the specification words them: \<^verbatim>\<open><col> = $(i+1)\<close>.\<close>

definition spec_assignments :: "entries \<Rightarrow> string list" where
  "spec_assignments d =
     map (\<lambda>i. escapeIdentifier (fst (d ! i)) @ '' = $'' @ show_nat (i + 1)) [0..<length d]"

text \<open>
  Two filter maps have the same shape when they have the same keys in the same order and
  null values at the same keys: they differ in their non-null values only.
\<close>

definition same_shape :: "entries \<Rightarrow> entries \<Rightarrow> bool" where
  "same_shape es es' \<longleftrightarrow>
     map fst es = map fst es' \<and> map (\<lambda>e. snd e = JNull) es = map (\<lambda>e. snd e = JNull) es'"

text \<open>
  The identifier escaping the specification asks for: every double quote doubled, the
  whole wrapped in double quotes.
\<close>

definition spec_escapeIdentifier :: "string \<Rightarrow> string" where
  "spec_escapeIdentifier identifier =
     dquote # concat (map (\<lambda>c. if c = dquote then [dquote, dquote] else [c]) identifier) @ [dquote]"

text \<open>
  The trace of the body of a \<^verbatim>\<open>try\<close> block: the pool is created, then only queries
  are sent.
\<close>

definition body_trace :: "PostgresConfig \<Rightarrow> event list \<Rightarrow> bool" where
  "body_trace cfg tr =
     (case tr of [] \<Rightarrow> False | e # rest \<Rightarrow> e = PoolNew cfg \<and> list_all is_query rest)"

text \<open>
  The trace of a whole call in which the pool is torn down exactly once: the pool is
  created, queries are sent, and \<^verbatim>\<open>pool.end()\<close> is the last operation.
\<close>

definition torn_down_once :: "PostgresConfig \<Rightarrow> event list \<Rightarrow> bool" where
  "torn_down_once cfg tr =
     (case tr of
        [] \<Rightarrow> False
      | e # rest \<Rightarrow>
          e = PoolNew cfg \<and> rest \<noteq> [] \<and> last rest = PoolEnd \<and> list_all is_query (butlast rest))"

text \<open>Sample inputs for the closed instances below.\<close>

definition sample_config :: PostgresConfig where
  "sample_config =
     \<lparr>host = ''localhost'', port = 5432, database = ''testdb'', username = ''user'',
      password = ''pass'', ssl = Some False\<rparr>"

text \<open>
  A driver that answers the estimate query with the estimate \<open>est\<close> and any other query
  with the count \<open>cnt\<close>.
\<close>

definition estimate_reply :: "string \<Rightarrow> string \<Rightarrow> event list \<Rightarrow> string \<Rightarrow> jsval list \<Rightarrow> error + PgResult" where
  "estimate_reply est cnt tr text vals =
     (if text = ESTIMATE_SQL
      then Inr \<lparr>rows = [[(''estimate'', JStr est)]], rowCount = Some 1\<rparr>
      else Inr \<lparr>rows = [[(''count'', JStr cnt)]], rowCount = Some 1\<rparr>)"

definition end_ok :: "event list \<Rightarrow> error option" where
  "end_ok tr = None"

definition estimate_driver :: "string \<Rightarrow> string \<Rightarrow> Driver" where
  "estimate_driver est cnt = \<lparr>query_reply = estimate_reply est cnt, end_reply = end_ok\<rparr>"

text \<open>A driver that rejects every query.\<close>

definition refuse_reply :: "event list \<Rightarrow> string \<Rightarrow> jsval list \<Rightarrow> error + PgResult" where
  "refuse_reply tr text vals = Inl (Error ''Connection refused'')"

definition refusing_driver :: Driver where
  "refusing_driver = \<lparr>query_reply = refuse_reply, end_reply = end_ok\<rparr>"

text \<open>A string between double quotes, to write the expected texts.\<close>

definition quoted :: "string \<Rightarrow> string" where
  "quoted s = dquote # s @ [dquote]"

definition quoted_name :: string where
  "quoted_name = [CHR ''a'', dquote, CHR ''b'']"

definition sample_filters :: entries where
  "sample_filters = [(''id'', JNum 1), (''deleted_at'', JNull), (''active'', JBool True)]"

definition sample_data :: entries where
  "sample_data = [(''name'', JStr ''Jane''), (''note'', JNull)]"

definition other_filters :: entries where
  "other_filters = [(''id'', JStr ''x; DROP TABLE users''), (''deleted_at'', JNull), (''active'', JNum 0)]"

definition users_select :: "string list \<Rightarrow> int option \<Rightarrow> SelectOptions" where
  "users_select cols lim =
     \<lparr>sel_table = ''users'', sel_columns = cols, sel_where = None, sel_orderBy = None,
      sel_limit = lim, sel_offset = None\<rparr>"

definition no_filters_update :: UpdateOptions where
  "no_filters_update = \<lparr>upd_table = ''users'', upd_data = sample_data, upd_where = []\<rparr>"

section \<open>Lemmas on the compiler\<close>

lemma nonNullValues_Nil [simp]: "nonNullValues [] = []"
  by (simp add: nonNullValues_def)

lemma nonNullValues_Cons [simp]:
  "nonNullValues ((k, v) # es) = (if v = JNull then nonNullValues es else v # nonNullValues es)"
  by (simp add: nonNullValues_def)

lemma whereLoop_eq:
  "whereLoop es (cs, ps, n) =
     (cs @ whereConditions es n, ps @ nonNullValues es, n + length (nonNullValues es))"
  by (induction es arbitrary: cs ps n) auto

lemma length_whereConditions [simp]: "length (whereConditions es n) = length es"
  by (induction es arbitrary: n) auto

lemma whereConditions_Nil_iff [simp]: "whereConditions es n = [] \<longleftrightarrow> es = []"
  using length_whereConditions [of es n] by (metis length_0_conv)

lemma buildWhereClause_eq:
  "buildWhereClause es n =
     (if es = [] then [] else ''WHERE '' @ join '' AND '' (whereConditions es n), nonNullValues es)"
  by (simp add: buildWhereClause_def whereLoop_eq)

lemma whereConditions_nth:
  "j < length es \<Longrightarrow>
   whereConditions es n ! j =
     (if snd (es ! j) = JNull then escapeIdentifier (fst (es ! j)) @ '' IS NULL''
      else escapeIdentifier (fst (es ! j)) @ '' = $'' @
           show_nat (n + length (nonNullValues (take j es))))"
proof (induction es arbitrary: n j)
  case Nil
  then show ?case by simp
next
  case (Cons e es)
  obtain k v where e: "e = (k, v)" by (cases e)
  show ?case
  proof (cases j)
    case 0
    then show ?thesis by (simp add: e)
  next
    case (Suc i)
    with Cons.prems have i: "i < length es" by simp
    show ?thesis using Cons.IH [OF i] by (simp add: e Suc)
  qed
qed

lemma nonNullValues_nth:
  "j < length es \<Longrightarrow> snd (es ! j) \<noteq> JNull \<Longrightarrow>
   length (nonNullValues (take j es)) < length (nonNullValues es) \<and>
   nonNullValues es ! length (nonNullValues (take j es)) = snd (es ! j)"
proof (induction es arbitrary: j)
  case Nil
  then show ?case by simp
next
  case (Cons e es)
  obtain k v where e: "e = (k, v)" by (cases e)
  show ?case
  proof (cases j)
    case 0
    with Cons.prems show ?thesis by (simp add: e)
  next
    case (Suc i)
    with Cons.prems have "i < length es" "snd (es ! i) \<noteq> JNull" by simp_all
    from Cons.IH [OF this] show ?thesis by (simp add: e Suc)
  qed
qed

lemma show_int_1000: "show_int 1000 = ''1000''"
  by (simp add: show_int_def show_nat.simps digit_char_def)

lemma whereConditions_spec: "whereConditions w n = spec_conditions w n"
  by (rule nth_equalityI) (simp_all add: spec_conditions_def spec_condition_def whereConditions_nth)

lemma setClauses_spec: "setClauses d = spec_assignments d"
  by (rule nth_equalityI)
     (simp_all add: setClauses_def spec_assignments_def nth_enumerate_eq split: prod.splits)

lemma whereConditions_shape:
  "same_shape es es' \<Longrightarrow> whereConditions es n = whereConditions es' n"
proof (induction es arbitrary: es' n)
  case Nil
  then show ?case by (simp add: same_shape_def)
next
  case (Cons e es)
  then obtain e' es1 where es': "es' = e' # es1"
    unfolding same_shape_def by (cases es') auto
  obtain k v where e: "e = (k, v)" by (cases e)
  obtain k' v' where e': "e' = (k', v')" by (cases e')
  from Cons.prems have h: "k = k'" "(v = JNull) = (v' = JNull)" "same_shape es es1"
    by (simp_all add: same_shape_def es' e e')
  show ?case using Cons.IH [OF h(3)] h(1,2) by (simp add: es' e e')
qed

lemma spec_conditions_shape:
  "same_shape w w' \<Longrightarrow> spec_conditions w n = spec_conditions w' n"
  using whereConditions_shape [of w w' n] by (simp add: whereConditions_spec)

lemma same_shape_Nil: "same_shape w w' \<Longrightarrow> (w = []) = (w' = [])"
  by (auto simp add: same_shape_def)

lemma spec_assignments_keys: "map fst d = map fst d' \<Longrightarrow> spec_assignments d = spec_assignments d'"
proof -
  assume h: "map fst d = map fst d'"
  then have l: "length d = length d'" by (metis length_map)
  have "\<And>i. i < length d \<Longrightarrow> fst (d ! i) = fst (d' ! i)"
    using h l by (metis nth_map)
  then show ?thesis by (simp add: spec_assignments_def l [symmetric])
qed

lemma buildSelectQuery_where:
  "sel_where so = Some w \<Longrightarrow>
   buildSelectQuery so =
     \<lparr>sql = ''SELECT '' @ select_columns (sel_columns so) @ '' FROM '' @
            escapeIdentifier (sel_table so) @
            (if w = [] then [] else '' WHERE '' @ join '' AND '' (spec_conditions w 1)) @
            select_orderBy (sel_orderBy so) @
            '' LIMIT '' @ show_int (select_limit (sel_limit so)) @
            select_offset (sel_offset so),
      params = nonNullValues w\<rparr>"
  by (simp add: buildSelectQuery_def select_where_def buildWhereClause_eq whereConditions_spec)

lemma buildSelectQuery_nowhere:
  "sel_where so = None \<Longrightarrow>
   buildSelectQuery so =
     \<lparr>sql = ''SELECT '' @ select_columns (sel_columns so) @ '' FROM '' @
            escapeIdentifier (sel_table so) @
            select_orderBy (sel_orderBy so) @
            '' LIMIT '' @ show_int (select_limit (sel_limit so)) @
            select_offset (sel_offset so),
      params = []\<rparr>"
  by (simp add: buildSelectQuery_def select_where_def)

lemma buildInsertQuery_ok:
  "d \<noteq> [] \<Longrightarrow>
   buildInsertQuery \<lparr>ins_table = t, ins_data = d\<rparr> =
     Inr \<lparr>sql = ''INSERT INTO '' @ escapeIdentifier t @ '' ('' @
               join '', '' (map (\<lambda>e. escapeIdentifier (fst e)) d) @
               '') VALUES ('' @ join '', '' (placeholders (length d)) @ '') RETURNING *'',
          params = map snd d\<rparr>"
  by (simp add: buildInsertQuery_def case_prod_unfold)

lemma buildUpdateQuery_ok:
  "d \<noteq> [] \<Longrightarrow> w \<noteq> [] \<Longrightarrow>
   buildUpdateQuery \<lparr>upd_table = t, upd_data = d, upd_where = w\<rparr> =
     Inr \<lparr>sql = ''UPDATE '' @ escapeIdentifier t @ '' SET '' @
               join '', '' (spec_assignments d) @
               '' WHERE '' @ join '' AND '' (spec_conditions w (length d + 1)) @
               '' RETURNING *'',
          params = map snd d @ nonNullValues w\<rparr>"
  by (simp add: buildUpdateQuery_def buildWhereClause_eq whereConditions_spec setClauses_spec)

lemma buildDeleteQuery_ok:
  "w \<noteq> [] \<Longrightarrow>
   buildDeleteQuery \<lparr>del_table = t, del_where = w\<rparr> =
     Inr \<lparr>sql = ''DELETE FROM '' @ escapeIdentifier t @
               '' WHERE '' @ join '' AND '' (spec_conditions w 1) @ '' RETURNING *'',
          params = nonNullValues w\<rparr>"
  by (simp add: buildDeleteQuery_def buildWhereClause_eq whereConditions_spec)

lemma nonNullValues_append: "nonNullValues (a @ b) = nonNullValues a @ nonNullValues b"
  by (simp add: nonNullValues_def)

lemma nonNullValues_take_Suc:
  "j < length w \<Longrightarrow>
   length (nonNullValues (take (Suc j) w)) =
     length (nonNullValues (take j w)) + (if snd (w ! j) = JNull then 0 else 1)"
  by (simp add: take_Suc_conv_app_nth nonNullValues_append nonNullValues_def)

lemma upt_3: "[0..<3] = [0, 1, 2]"
  by (simp add: upt_rec)

lemma upt_2: "[0..<2] = [0, 1]"
  by (simp add: upt_rec)

lemma show_nat_small: "n < 10 \<Longrightarrow> show_nat n = [''0123456789'' ! n]"
  by (simp add: show_nat.simps digit_char_def)

section \<open>The tests of the repository\<close>

text \<open>
  The expectations of \<^verbatim>\<open>query-executor.test.ts\<close> on the builders hold of the model.
  (The \<^verbatim>\<open>Date\<close> of the update test is the object \<open>JObj 0\<close>.)
\<close>

lemmas compiler_defs =
  buildSelectQuery_def buildInsertQuery_def buildUpdateQuery_def buildDeleteQuery_def
  buildWhereClause_def select_where_def select_columns_def select_orderBy_def select_limit_def
  select_offset_def MAX_ROWS_def escapeIdentifier_def setClauses_def placeholders_def
  show_direction_def show_nat_small enumerate_eq_zip upt_2 upt_3 quoted_def

lemma test_select_where:
  "buildSelectQuery
     \<lparr>sel_table = ''users'', sel_columns = [''id'', ''name''],
      sel_where = Some [(''id'', JNum 1), (''active'', JBool True)], sel_orderBy = None,
      sel_limit = None, sel_offset = None\<rparr> =
   \<lparr>sql = ''SELECT '' @ quoted ''id'' @ '', '' @ quoted ''name'' @ '' FROM '' @ quoted ''users'' @
          '' WHERE '' @ quoted ''id'' @ '' = $1 AND '' @ quoted ''active'' @ '' = $2 LIMIT 1000'',
    params = [JNum 1, JBool True]\<rparr>"
  by (simp add: compiler_defs show_int_1000)

lemma test_select_complex:
  "buildSelectQuery
     \<lparr>sel_table = ''posts'', sel_columns = [''id'', ''title''],
      sel_where = Some [(''deleted_at'', JNull)],
      sel_orderBy = Some [(''created_at'', DESC), (''title'', ASC)],
      sel_limit = Some 25, sel_offset = Some 0\<rparr> =
   \<lparr>sql = ''SELECT '' @ quoted ''id'' @ '', '' @ quoted ''title'' @ '' FROM '' @ quoted ''posts'' @
          '' WHERE '' @ quoted ''deleted_at'' @ '' IS NULL ORDER BY '' @ quoted ''created_at'' @
          '' DESC, '' @ quoted ''title'' @ '' ASC LIMIT 25 OFFSET 0'',
    params = []\<rparr>"
  by (simp add: compiler_defs show_int_def show_nat.simps [of 25] digit_char_def)

lemma test_insert:
  "buildInsertQuery
     \<lparr>ins_table = ''users'', ins_data = [(''name'', JStr ''John''), (''email'', JStr ''john@example.com'')]\<rparr> =
   Inr \<lparr>sql = ''INSERT INTO '' @ quoted ''users'' @ '' ('' @ quoted ''name'' @ '', '' @
              quoted ''email'' @ '') VALUES ($1, $2) RETURNING *'',
        params = [JStr ''John'', JStr ''john@example.com'']\<rparr>"
  by (simp add: compiler_defs)

lemma test_update:
  "buildUpdateQuery
     \<lparr>upd_table = ''users'', upd_data = [(''name'', JStr ''Jane''), (''updated_at'', JObj 0)],
      upd_where = [(''id'', JNum 1)]\<rparr> =
   Inr \<lparr>sql = ''UPDATE '' @ quoted ''users'' @ '' SET '' @ quoted ''name'' @ '' = $1, '' @
              quoted ''updated_at'' @ '' = $2 WHERE '' @ quoted ''id'' @ '' = $3 RETURNING *'',
        params = [JStr ''Jane'', JObj 0, JNum 1]\<rparr>"
  by (simp add: compiler_defs)

lemma test_delete:
  "buildDeleteQuery \<lparr>del_table = ''users'', del_where = [(''id'', JNum 1)]\<rparr> =
   Inr \<lparr>sql = ''DELETE FROM '' @ quoted ''users'' @ '' WHERE '' @ quoted ''id'' @
              '' = $1 RETURNING *'',
        params = [JNum 1]\<rparr>"
  by (simp add: compiler_defs)

lemma test_escapes_table_names:
  "sql (buildSelectQuery (users_select [''*''] None
          \<lparr>sel_table := ''users'' @ [dquote] @ ''; DROP TABLE users; --''\<rparr>)) =
   ''SELECT * FROM '' @
   quoted (''users'' @ [backslash, dquote] @ ''; DROP TABLE users; --'') @ '' LIMIT 1000''"
  by (simp add: compiler_defs users_select_def show_int_1000)

section \<open>Lemmas on the executor\<close>

lemma executeInsert_rejected:
  "buildInsertQuery io = Inl e \<Longrightarrow> fst (executeInsert drv cfg io) = [PoolNew cfg, PoolEnd]"
  by (simp add: executeInsert_def try_finally_def pool_end_def split: option.splits)

lemma executeUpdate_rejected:
  "buildUpdateQuery uo = Inl e \<Longrightarrow> fst (executeUpdate drv cfg uo) = [PoolNew cfg, PoolEnd]"
  by (simp add: executeUpdate_def try_finally_def pool_end_def split: option.splits)

lemma executeDelete_rejected:
  "buildDeleteQuery dl = Inl e \<Longrightarrow> fst (executeDelete drv cfg dl) = [PoolNew cfg, PoolEnd]"
  by (simp add: executeDelete_def try_finally_def pool_end_def split: option.splits)

lemma body_trace_new: "body_trace cfg [PoolNew cfg]"
  by (simp add: body_trace_def)

lemma body_trace_query:
  "body_trace cfg tr \<Longrightarrow> body_trace cfg (fst (pool_query drv stmt vals tr))"
  by (cases tr) (simp_all add: body_trace_def pool_query_def)

lemma body_trace_tablesLoop:
  "body_trace cfg tr \<Longrightarrow> body_trace cfg (fst (tablesLoop drv rs tbls tr))"
proof (induction rs arbitrary: tbls tr)
  case Nil
  then show ?case by simp
next
  case (Cons r rs)
  let ?n = "field r ''table_name''"
  obtain tr1 r1 where q1: "pool_query drv COLUMNS_SQL [?n] tr = (tr1, r1)"
    by (cases "pool_query drv COLUMNS_SQL [?n] tr")
  have b1: "body_trace cfg tr1"
    using body_trace_query [OF Cons.prems, of drv COLUMNS_SQL "[?n]"] q1 by simp
  obtain tr2 r2 where q2: "pool_query drv PK_SQL [?n] tr1 = (tr2, r2)"
    by (cases "pool_query drv PK_SQL [?n] tr1")
  have b2: "body_trace cfg tr2"
    using body_trace_query [OF b1, of drv PK_SQL "[?n]"] q2 by simp
  show ?case
  proof (cases r1)
    case (Inl e)
    then show ?thesis using q1 b1 by simp
  next
    case c: (Inr columnsResult)
    show ?thesis
    proof (cases r2)
      case (Inl e)
      then show ?thesis using q1 q2 c b2 by simp
    next
      case (Inr pkResult)
      then show ?thesis using q1 q2 c Cons.IH [OF b2] by simp
    qed
  qed
qed

lemma torn_down_once_finally:
  "body_trace cfg (fst body) \<Longrightarrow> torn_down_once cfg (fst (try_finally drv body))"
  by (cases body; cases "fst body")
     (auto simp add: body_trace_def torn_down_once_def try_finally_def pool_end_def
        split: option.splits)

lemma no_end_in_queries: "list_all is_query qs \<Longrightarrow> filter (\<lambda>e. e = PoolEnd) qs = []"
  by (induction qs) auto

lemma torn_down_once_count:
  "torn_down_once cfg tr \<Longrightarrow>
   length (filter (\<lambda>e. e = PoolEnd) tr) = 1 \<and> last tr = PoolEnd \<and> hd tr = PoolNew cfg"
proof -
  assume h: "torn_down_once cfg tr"
  then obtain rest where tr: "tr = PoolNew cfg # rest" and r: "rest \<noteq> []"
    and l: "last rest = PoolEnd" and q: "list_all is_query (butlast rest)"
    by (auto simp add: torn_down_once_def split: list.splits)
  have rest: "rest = butlast rest @ [PoolEnd]"
    using r l by (metis append_butlast_last_id)
  have "filter (\<lambda>e. e = PoolEnd) (butlast rest) = []"
    using q by (rule no_end_in_queries)
  then have "length (filter (\<lambda>e. e = PoolEnd) rest) = 1"
    by (subst rest) simp
  then show ?thesis using tr r l by simp
qed

lemma body_trace_case_query:
  "body_trace cfg tr \<Longrightarrow>
   body_trace cfg
     (fst (case pool_query drv stmt vals tr of
             (tr', Inl e) \<Rightarrow> (tr', Inl e)
           | (tr', Inr result) \<Rightarrow> (tr', Inr (f result))))"
  using body_trace_query [of cfg tr drv stmt vals]
  by (auto split: prod.splits sum.splits)

lemma executeSelect_torn_down: "torn_down_once cfg (fst (executeSelect drv cfg so))"
  unfolding executeSelect_def Let_def
  by (rule torn_down_once_finally) (rule body_trace_case_query [OF body_trace_new])

lemma executeInsert_torn_down: "torn_down_once cfg (fst (executeInsert drv cfg io))"
  unfolding executeInsert_def
  by (rule torn_down_once_finally)
     (cases "buildInsertQuery io"; simp add: body_trace_new body_trace_case_query)

lemma executeUpdate_torn_down: "torn_down_once cfg (fst (executeUpdate drv cfg uo))"
  unfolding executeUpdate_def
  by (rule torn_down_once_finally)
     (cases "buildUpdateQuery uo"; simp add: body_trace_new body_trace_case_query)

lemma executeDelete_torn_down: "torn_down_once cfg (fst (executeDelete drv cfg dl))"
  unfolding executeDelete_def
  by (rule torn_down_once_finally)
     (cases "buildDeleteQuery dl"; simp add: body_trace_new body_trace_case_query)

lemma introspect_torn_down: "torn_down_once cfg (fst (introspectPostgresSchema drv cfg))"
  unfolding introspectPostgresSchema_def
proof (rule torn_down_once_finally)
  obtain tr r where q: "pool_query drv TABLES_SQL [] [PoolNew cfg] = (tr, r)"
    by (cases "pool_query drv TABLES_SQL [] [PoolNew cfg]")
  have b: "body_trace cfg tr"
    using body_trace_query [OF body_trace_new, of cfg drv TABLES_SQL "[]"] q by simp
  show "body_trace cfg
     (fst (case pool_query drv TABLES_SQL [] [PoolNew cfg] of
             (tr, Inl e) \<Rightarrow> (tr, Inl e)
           | (tr, Inr tablesResult) \<Rightarrow>
               (case tablesLoop drv (rows tablesResult) [] tr of
                  (tr', Inl e) \<Rightarrow> (tr', Inl e)
                | (tr', Inr tbls) \<Rightarrow> (tr', Inr \<lparr>tables = tbls\<rparr>))))"
  proof (cases r)
    case (Inl e)
    then show ?thesis using q b by simp
  next
    case (Inr tablesResult)
    then show ?thesis
      using q body_trace_tablesLoop [OF b, of drv "rows tablesResult" "[]"]
      by (auto split: prod.splits sum.splits)
  qed
qed

lemma rowCount_torn_down: "torn_down_once cfg (fst (getTableRowCount drv cfg tableName))"
  unfolding getTableRowCount_def
proof (rule torn_down_once_finally)
  obtain tr r where q: "pool_query drv ESTIMATE_SQL [JStr tableName] [PoolNew cfg] = (tr, r)"
    by (cases "pool_query drv ESTIMATE_SQL [JStr tableName] [PoolNew cfg]")
  have b: "body_trace cfg tr"
    using body_trace_query [OF body_trace_new, of cfg drv ESTIMATE_SQL "[JStr tableName]"] q
    by simp
  show "body_trace cfg
     (fst (case pool_query drv ESTIMATE_SQL [JStr tableName] [PoolNew cfg] of
             (tr, Inl e) \<Rightarrow> (tr, Inl e)
           | (tr, Inr estimateResult) \<Rightarrow>
               (let estimate = parseInt_val (first_field_or_zero (rows estimateResult) ''estimate'')
                in if is_small estimate
                   then (case pool_query drv (COUNT_SQL tableName) [] tr of
                           (tr', Inl e) \<Rightarrow> (tr', Inl e)
                         | (tr', Inr countResult) \<Rightarrow>
                             (tr', Inr (parseInt_val (first_field_or_zero (rows countResult) ''count''))))
                   else (tr, Inr estimate))))"
  proof (cases r)
    case (Inl e)
    then show ?thesis using q b by simp
  next
    case (Inr estimateResult)
    then show ?thesis
      using q b body_trace_case_query [OF b, where drv = drv and stmt = "COUNT_SQL tableName" and vals = "[]"
          and f = "\<lambda>countResult. parseInt_val (first_field_or_zero (rows countResult) ''count'')"]
      by (simp add: Let_def)
  qed
qed

section \<open>Lemmas on the row count\<close>

lemma parseInt_10000: "parseInt ''10000'' = Num 10000"
  by (simp add: parseInt_def is_space_def is_digit_def digits_val_def)

lemma parseInt_9999: "parseInt ''9999'' = Num 9999"
  by (simp add: parseInt_def is_space_def is_digit_def digits_val_def)

lemma parseInt_9990: "parseInt ''9990'' = Num 9990"
  by (simp add: parseInt_def is_space_def is_digit_def digits_val_def)

lemma parseInt_5: "parseInt ''5'' = Num 5"
  by (simp add: parseInt_def is_space_def is_digit_def digits_val_def)

lemma getTableRowCount_large:
  "query_reply drv [PoolNew cfg] ESTIMATE_SQL [JStr tableName] = Inr er \<Longrightarrow>
   \<not> is_small (parseInt_val (first_field_or_zero (rows er) ''estimate'')) \<Longrightarrow>
   getTableRowCount drv cfg tableName =
     ([PoolNew cfg, PoolQuery ESTIMATE_SQL [JStr tableName], PoolEnd],
      case end_reply drv [PoolNew cfg, PoolQuery ESTIMATE_SQL [JStr tableName]] of
        None \<Rightarrow> Inr (parseInt_val (first_field_or_zero (rows er) ''estimate''))
      | Some e \<Rightarrow> Inl e)"
  by (simp add: getTableRowCount_def try_finally_def pool_query_def pool_end_def Let_def
      split: option.splits)

lemma getTableRowCount_small:
  "query_reply drv [PoolNew cfg] ESTIMATE_SQL [JStr tableName] = Inr er \<Longrightarrow>
   is_small (parseInt_val (first_field_or_zero (rows er) ''estimate'')) \<Longrightarrow>
   getTableRowCount drv cfg tableName =
     ([PoolNew cfg, PoolQuery ESTIMATE_SQL [JStr tableName],
       PoolQuery (COUNT_SQL tableName) [], PoolEnd],
      case end_reply drv
             [PoolNew cfg, PoolQuery ESTIMATE_SQL [JStr tableName],
              PoolQuery (COUNT_SQL tableName) []] of
        Some e \<Rightarrow> Inl e
      | None \<Rightarrow>
          (case query_reply drv [PoolNew cfg, PoolQuery ESTIMATE_SQL [JStr tableName]]
                  (COUNT_SQL tableName) [] of
             Inl e \<Rightarrow> Inl e
           | Inr cr \<Rightarrow> Inr (parseInt_val (first_field_or_zero (rows cr) ''count''))))"
  by (simp add: getTableRowCount_def try_finally_def pool_query_def pool_end_def Let_def
      split: option.splits sum.splits)

lemma estimate_ne_count: "COUNT_SQL t \<noteq> ESTIMATE_SQL"
  by (simp add: COUNT_SQL_def ESTIMATE_SQL_def)

section \<open>The row cap\<close>

text \<open>
  Claim C4. For every Select descriptor the compiled text ends with a LIMIT clause (followed
  only by the OFFSET clause, when an offset is given) whose value is the minimum of the
  requested limit (1000 when none is requested) and 1000. The emitted limit is never above
  1000, and a request for 2000 rows compiles to \<^verbatim>\<open>LIMIT 1000\<close>.
\<close>

theorem select_limit_capped:
  "(\<exists>prefix. sql (buildSelectQuery so) =
      prefix @ '' LIMIT '' @
      show_int (min (case sel_limit so of None \<Rightarrow> 1000 | Some l \<Rightarrow> l) 1000) @
      (case sel_offset so of None \<Rightarrow> [] | Some m \<Rightarrow> '' OFFSET '' @ show_int m))
   \<and> select_limit (sel_limit so) \<le> 1000
   \<and> sql (buildSelectQuery (users_select [''*''] (Some 2000))) =
      ''SELECT * FROM '' @ [dquote] @ ''users'' @ [dquote] @ '' LIMIT 1000''"
proof (intro conjI)
  obtain wt ps where w: "select_where (sel_where so) = (wt, ps)"
    by (cases "select_where (sel_where so)")
  have "sql (buildSelectQuery so) =
      (''SELECT '' @ select_columns (sel_columns so) @ '' FROM '' @
       escapeIdentifier (sel_table so) @ wt @ select_orderBy (sel_orderBy so)) @ '' LIMIT '' @
      show_int (min (case sel_limit so of None \<Rightarrow> 1000 | Some l \<Rightarrow> l) 1000) @
      (case sel_offset so of None \<Rightarrow> [] | Some m \<Rightarrow> '' OFFSET '' @ show_int m)"
    by (simp add: buildSelectQuery_def w select_limit_def MAX_ROWS_def select_offset_def
        split: option.splits)
  then show "\<exists>prefix. sql (buildSelectQuery so) =
      prefix @ '' LIMIT '' @
      show_int (min (case sel_limit so of None \<Rightarrow> 1000 | Some l \<Rightarrow> l) 1000) @
      (case sel_offset so of None \<Rightarrow> [] | Some m \<Rightarrow> '' OFFSET '' @ show_int m)"
    by blast
next
  show "select_limit (sel_limit so) \<le> 1000"
    by (simp add: select_limit_def MAX_ROWS_def)
next
  show "sql (buildSelectQuery (users_select [''*''] (Some 2000))) =
      ''SELECT * FROM '' @ [dquote] @ ''users'' @ [dquote] @ '' LIMIT 1000''"
    by (simp add: buildSelectQuery_def users_select_def select_where_def select_columns_def
        select_orderBy_def select_limit_def MAX_ROWS_def select_offset_def escapeIdentifier_def
        show_int_1000)
qed

section \<open>The wildcard test\<close>



section \<open>Parameterisation\<close>

text \<open>
  Claim C1. A value supplied through a filter or value map reaches the compiled output only
  as an element of the parameter array. The text of a compiled query is the same for any
  two inputs that differ in their non-null values only: it depends on the keys and on which
  filter values are null. The text of each builder is given in full: an Insert carries the
  placeholders \<open>$1\<close> to \<open>$k\<close> for its \<open>k\<close> values, an Update the assignments
  \<^verbatim>\<open><col> = $(i+1)\<close> and then the conditions numbered from \<open>k + 1\<close>, a Select and a
  Delete the conditions numbered from 1; condition \<open>j\<close> of a non-null filter carries
  \<open>$n\<close> with \<open>n\<close> the first number plus the count of non-null filters before it. The
  parameters are the values themselves, in order (for a filter map, its non-null values),
  and the value whose placeholder is \<open>$n\<close> stands at position \<open>n - 1\<close> of the parameters.
\<close>

theorem values_only_in_parameters:
  "(same_shape w w' \<longrightarrow>
      sql (buildSelectQuery (so\<lparr>sel_where := Some w\<rparr>)) =
      sql (buildSelectQuery (so\<lparr>sel_where := Some w'\<rparr>)))
   \<and> params (buildSelectQuery (so\<lparr>sel_where := Some w\<rparr>)) = nonNullValues w
   \<and> (d \<noteq> [] \<and> map fst d = map fst d' \<longrightarrow>
        (\<exists>q q'. buildInsertQuery \<lparr>ins_table = t, ins_data = d\<rparr> = Inr q \<and>
                buildInsertQuery \<lparr>ins_table = t, ins_data = d'\<rparr> = Inr q' \<and>
                sql q = sql q' \<and> params q = map snd d \<and> params q' = map snd d'))
   \<and> (d \<noteq> [] \<and> w \<noteq> [] \<and> map fst d = map fst d' \<and> same_shape w w' \<longrightarrow>
        (\<exists>q q'. buildUpdateQuery \<lparr>upd_table = t, upd_data = d, upd_where = w\<rparr> = Inr q \<and>
                buildUpdateQuery \<lparr>upd_table = t, upd_data = d', upd_where = w'\<rparr> = Inr q' \<and>
                sql q = sql q' \<and>
                params q = map snd d @ nonNullValues w \<and>
                params q' = map snd d' @ nonNullValues w'))
   \<and> (w \<noteq> [] \<and> same_shape w w' \<longrightarrow>
        (\<exists>q q'. buildDeleteQuery \<lparr>del_table = t, del_where = w\<rparr> = Inr q \<and>
                buildDeleteQuery \<lparr>del_table = t, del_where = w'\<rparr> = Inr q' \<and>
                sql q = sql q' \<and> params q = nonNullValues w \<and> params q' = nonNullValues w'))
   \<and> (\<forall>j<length w. snd (w ! j) \<noteq> JNull \<longrightarrow>
        (\<exists>n. spec_conditions w 1 ! j = escapeIdentifier (fst (w ! j)) @ '' = $'' @ show_nat n \<and>
             1 \<le> n \<and> n \<le> length (nonNullValues w) \<and>
             nonNullValues w ! (n - 1) = snd (w ! j)))
   \<and> sql (buildSelectQuery (so\<lparr>sel_where := Some w\<rparr>)) =
       ''SELECT '' @ select_columns (sel_columns so) @ '' FROM '' @
       escapeIdentifier (sel_table so) @
       (if w = [] then [] else '' WHERE '' @ join '' AND '' (spec_conditions w 1)) @
       select_orderBy (sel_orderBy so) @
       '' LIMIT '' @ show_int (select_limit (sel_limit so)) @
       select_offset (sel_offset so)
   \<and> (d \<noteq> [] \<longrightarrow>
        buildInsertQuery \<lparr>ins_table = t, ins_data = d\<rparr> =
          Inr \<lparr>sql = ''INSERT INTO '' @ escapeIdentifier t @ '' ('' @
                    join '', '' (map (\<lambda>e. escapeIdentifier (fst e)) d) @
                    '') VALUES ('' @
                    join '', '' (map (\<lambda>i. ''$'' @ show_nat (i + 1)) [0..<length d]) @
                    '') RETURNING *'',
               params = map snd d\<rparr>)
   \<and> (d \<noteq> [] \<and> w \<noteq> [] \<longrightarrow>
        buildUpdateQuery \<lparr>upd_table = t, upd_data = d, upd_where = w\<rparr> =
          Inr \<lparr>sql = ''UPDATE '' @ escapeIdentifier t @ '' SET '' @
                    join '', '' (spec_assignments d) @
                    '' WHERE '' @ join '' AND '' (spec_conditions w (length d + 1)) @
                    '' RETURNING *'',
               params = map snd d @ nonNullValues w\<rparr>)
   \<and> (w \<noteq> [] \<longrightarrow>
        buildDeleteQuery \<lparr>del_table = t, del_where = w\<rparr> =
          Inr \<lparr>sql = ''DELETE FROM '' @ escapeIdentifier t @
                    '' WHERE '' @ join '' AND '' (spec_conditions w 1) @ '' RETURNING *'',
               params = nonNullValues w\<rparr>)
   \<and> length (spec_assignments d) = length d
   \<and> length (spec_conditions w start) = length w
   \<and> (\<forall>i<length d.
        spec_assignments d ! i = escapeIdentifier (fst (d ! i)) @ '' = $'' @ show_nat (i + 1) \<and>
        map (\<lambda>i. ''$'' @ show_nat (i + 1)) [0..<length d] ! i = ''$'' @ show_nat (i + 1) \<and>
        map snd d ! ((i + 1) - 1) = snd (d ! i) \<and>
        (map snd d @ nonNullValues w) ! ((i + 1) - 1) = snd (d ! i))
   \<and> (\<forall>j<length w.
        spec_conditions w start ! j =
          (if snd (w ! j) = JNull then escapeIdentifier (fst (w ! j)) @ '' IS NULL''
           else escapeIdentifier (fst (w ! j)) @ '' = $'' @
                show_nat (start + length (nonNullValues (take j w)))))
   \<and> (\<forall>j<length w. snd (w ! j) \<noteq> JNull \<longrightarrow>
        length (nonNullValues (take j w)) < length (nonNullValues w) \<and>
        (pre @ nonNullValues w) ! ((length pre + 1 + length (nonNullValues (take j w))) - 1) =
          snd (w ! j))"
proof (intro conjI)
  show "same_shape w w' \<longrightarrow>
      sql (buildSelectQuery (so\<lparr>sel_where := Some w\<rparr>)) =
      sql (buildSelectQuery (so\<lparr>sel_where := Some w'\<rparr>))"
    using spec_conditions_shape [of w w' 1] same_shape_Nil [of w w']
    by (simp add: buildSelectQuery_where del: One_nat_def)
next
  show "params (buildSelectQuery (so\<lparr>sel_where := Some w\<rparr>)) = nonNullValues w"
    by (simp add: buildSelectQuery_where)
next
  show "d \<noteq> [] \<and> map fst d = map fst d' \<longrightarrow>
        (\<exists>q q'. buildInsertQuery \<lparr>ins_table = t, ins_data = d\<rparr> = Inr q \<and>
                buildInsertQuery \<lparr>ins_table = t, ins_data = d'\<rparr> = Inr q' \<and>
                sql q = sql q' \<and> params q = map snd d \<and> params q' = map snd d')"
  proof
    assume h: "d \<noteq> [] \<and> map fst d = map fst d'"
    then have d': "d' \<noteq> []" by auto
    have l: "length d = length d'" using h by (metis length_map)
    have "map (\<lambda>e. escapeIdentifier (fst e)) d = map escapeIdentifier (map fst d)"
      by simp
    also have "\<dots> = map (\<lambda>e. escapeIdentifier (fst e)) d'"
      using h by simp
    finally show "\<exists>q q'. buildInsertQuery \<lparr>ins_table = t, ins_data = d\<rparr> = Inr q \<and>
                buildInsertQuery \<lparr>ins_table = t, ins_data = d'\<rparr> = Inr q' \<and>
                sql q = sql q' \<and> params q = map snd d \<and> params q' = map snd d'"
      using h d' l by (simp add: buildInsertQuery_ok)
  qed
next
  show "d \<noteq> [] \<and> w \<noteq> [] \<and> map fst d = map fst d' \<and> same_shape w w' \<longrightarrow>
        (\<exists>q q'. buildUpdateQuery \<lparr>upd_table = t, upd_data = d, upd_where = w\<rparr> = Inr q \<and>
                buildUpdateQuery \<lparr>upd_table = t, upd_data = d', upd_where = w'\<rparr> = Inr q' \<and>
                sql q = sql q' \<and>
                params q = map snd d @ nonNullValues w \<and>
                params q' = map snd d' @ nonNullValues w')"
  proof
    assume h: "d \<noteq> [] \<and> w \<noteq> [] \<and> map fst d = map fst d' \<and> same_shape w w'"
    then have ne: "d' \<noteq> []" "w' \<noteq> []" by (auto dest: same_shape_Nil)
    have l: "length d = length d'" using h by (metis length_map)
    show "\<exists>q q'. buildUpdateQuery \<lparr>upd_table = t, upd_data = d, upd_where = w\<rparr> = Inr q \<and>
                buildUpdateQuery \<lparr>upd_table = t, upd_data = d', upd_where = w'\<rparr> = Inr q' \<and>
                sql q = sql q' \<and>
                params q = map snd d @ nonNullValues w \<and>
                params q' = map snd d' @ nonNullValues w'"
      using h ne spec_assignments_keys [of d d'] spec_conditions_shape [of w w' "length d + 1"]
      by (simp add: buildUpdateQuery_ok l)
  qed
next
  show "w \<noteq> [] \<and> same_shape w w' \<longrightarrow>
        (\<exists>q q'. buildDeleteQuery \<lparr>del_table = t, del_where = w\<rparr> = Inr q \<and>
                buildDeleteQuery \<lparr>del_table = t, del_where = w'\<rparr> = Inr q' \<and>
                sql q = sql q' \<and> params q = nonNullValues w \<and> params q' = nonNullValues w')"
  proof
    assume h: "w \<noteq> [] \<and> same_shape w w'"
    then have ne: "w' \<noteq> []" by (auto dest: same_shape_Nil)
    show "\<exists>q q'. buildDeleteQuery \<lparr>del_table = t, del_where = w\<rparr> = Inr q \<and>
                buildDeleteQuery \<lparr>del_table = t, del_where = w'\<rparr> = Inr q' \<and>
                sql q = sql q' \<and> params q = nonNullValues w \<and> params q' = nonNullValues w'"
      using h ne spec_conditions_shape [of w w' "Suc 0"] by (simp add: buildDeleteQuery_ok)
  qed
next
  show "\<forall>j<length w. snd (w ! j) \<noteq> JNull \<longrightarrow>
        (\<exists>n. spec_conditions w 1 ! j = escapeIdentifier (fst (w ! j)) @ '' = $'' @ show_nat n \<and>
             1 \<le> n \<and> n \<le> length (nonNullValues w) \<and>
             nonNullValues w ! (n - 1) = snd (w ! j))"
  proof (intro allI impI)
    fix j assume j: "j < length w" and nn: "snd (w ! j) \<noteq> JNull"
    let ?n = "1 + length (nonNullValues (take j w))"
    have "spec_conditions w 1 ! j = escapeIdentifier (fst (w ! j)) @ '' = $'' @ show_nat ?n"
      using j nn by (simp add: spec_conditions_def spec_condition_def)
    moreover have "1 \<le> ?n" by simp
    moreover have "?n \<le> length (nonNullValues w)" "nonNullValues w ! (?n - 1) = snd (w ! j)"
      using nonNullValues_nth [OF j nn] by simp_all
    ultimately show "\<exists>n. spec_conditions w 1 ! j =
             escapeIdentifier (fst (w ! j)) @ '' = $'' @ show_nat n \<and>
             1 \<le> n \<and> n \<le> length (nonNullValues w) \<and>
             nonNullValues w ! (n - 1) = snd (w ! j)"
      by blast
  qed
next
  show "sql (buildSelectQuery (so\<lparr>sel_where := Some w\<rparr>)) =
       ''SELECT '' @ select_columns (sel_columns so) @ '' FROM '' @
       escapeIdentifier (sel_table so) @
       (if w = [] then [] else '' WHERE '' @ join '' AND '' (spec_conditions w 1)) @
       select_orderBy (sel_orderBy so) @
       '' LIMIT '' @ show_int (select_limit (sel_limit so)) @
       select_offset (sel_offset so)"
    by (simp add: buildSelectQuery_where)
next
  show "d \<noteq> [] \<longrightarrow>
        buildInsertQuery \<lparr>ins_table = t, ins_data = d\<rparr> =
          Inr \<lparr>sql = ''INSERT INTO '' @ escapeIdentifier t @ '' ('' @
                    join '', '' (map (\<lambda>e. escapeIdentifier (fst e)) d) @
                    '') VALUES ('' @
                    join '', '' (map (\<lambda>i. ''$'' @ show_nat (i + 1)) [0..<length d]) @
                    '') RETURNING *'',
               params = map snd d\<rparr>"
    by (simp add: buildInsertQuery_ok placeholders_def)
next
  show "d \<noteq> [] \<and> w \<noteq> [] \<longrightarrow>
        buildUpdateQuery \<lparr>upd_table = t, upd_data = d, upd_where = w\<rparr> =
          Inr \<lparr>sql = ''UPDATE '' @ escapeIdentifier t @ '' SET '' @
                    join '', '' (spec_assignments d) @
                    '' WHERE '' @ join '' AND '' (spec_conditions w (length d + 1)) @
                    '' RETURNING *'',
               params = map snd d @ nonNullValues w\<rparr>"
    by (simp add: buildUpdateQuery_ok)
next
  show "w \<noteq> [] \<longrightarrow>
        buildDeleteQuery \<lparr>del_table = t, del_where = w\<rparr> =
          Inr \<lparr>sql = ''DELETE FROM '' @ escapeIdentifier t @
                    '' WHERE '' @ join '' AND '' (spec_conditions w 1) @ '' RETURNING *'',
               params = nonNullValues w\<rparr>"
    by (simp add: buildDeleteQuery_ok)
next
  show "length (spec_assignments d) = length d"
    by (simp add: spec_assignments_def)
next
  show "length (spec_conditions w start) = length w"
    by (simp add: spec_conditions_def)
next
  show "\<forall>i<length d.
        spec_assignments d ! i = escapeIdentifier (fst (d ! i)) @ '' = $'' @ show_nat (i + 1) \<and>
        map (\<lambda>i. ''$'' @ show_nat (i + 1)) [0..<length d] ! i = ''$'' @ show_nat (i + 1) \<and>
        map snd d ! ((i + 1) - 1) = snd (d ! i) \<and>
        (map snd d @ nonNullValues w) ! ((i + 1) - 1) = snd (d ! i)"
    by (simp add: spec_assignments_def nth_append)
next
  show "\<forall>j<length w.
        spec_conditions w start ! j =
          (if snd (w ! j) = JNull then escapeIdentifier (fst (w ! j)) @ '' IS NULL''
           else escapeIdentifier (fst (w ! j)) @ '' = $'' @
                show_nat (start + length (nonNullValues (take j w))))"
    by (simp add: spec_conditions_def spec_condition_def)
next
  show "\<forall>j<length w. snd (w ! j) \<noteq> JNull \<longrightarrow>
        length (nonNullValues (take j w)) < length (nonNullValues w) \<and>
        (pre @ nonNullValues w) ! ((length pre + 1 + length (nonNullValues (take j w))) - 1) =
          snd (w ! j)"
    using nonNullValues_nth [of _ w] by (simp add: nth_append)
qed

theorem values_only_in_parameters_witness:
  "same_shape sample_filters other_filters
   \<and> sql (buildSelectQuery ((users_select [''*''] None)\<lparr>sel_where := Some sample_filters\<rparr>)) =
     sql (buildSelectQuery ((users_select [''*''] None)\<lparr>sel_where := Some other_filters\<rparr>))
   \<and> params (buildSelectQuery ((users_select [''*''] None)\<lparr>sel_where := Some other_filters\<rparr>)) =
     [JStr ''x; DROP TABLE users'', JNum 0]
   \<and> sample_filters \<noteq> []
   \<and> (\<exists>q q'. buildDeleteQuery \<lparr>del_table = ''users'', del_where = sample_filters\<rparr> = Inr q \<and>
             buildDeleteQuery \<lparr>del_table = ''users'', del_where = other_filters\<rparr> = Inr q' \<and>
             sql q = sql q' \<and> params q = [JNum 1, JBool True] \<and>
             params q' = [JStr ''x; DROP TABLE users'', JNum 0])
   \<and> sample_data \<noteq> []
   \<and> buildInsertQuery \<lparr>ins_table = ''users'', ins_data = sample_data\<rparr> =
       Inr \<lparr>sql = ''INSERT INTO '' @ quoted ''users'' @ '' ('' @ quoted ''name'' @ '', '' @
                 quoted ''note'' @ '') VALUES ($1, $2) RETURNING *'',
            params = [JStr ''Jane'', JNull]\<rparr>
   \<and> buildUpdateQuery \<lparr>upd_table = ''users'', upd_data = sample_data, upd_where = other_filters\<rparr> =
       Inr \<lparr>sql = ''UPDATE '' @ quoted ''users'' @ '' SET '' @ quoted ''name'' @ '' = $1, '' @
                 quoted ''note'' @ '' = $2 WHERE '' @ quoted ''id'' @ '' = $3 AND '' @
                 quoted ''deleted_at'' @ '' IS NULL AND '' @ quoted ''active'' @
                 '' = $4 RETURNING *'',
            params = [JStr ''Jane'', JNull, JStr ''x; DROP TABLE users'', JNum 0]\<rparr>
   \<and> (2::nat) < length other_filters \<and> snd (other_filters ! 2) \<noteq> JNull
   \<and> spec_conditions other_filters (length sample_data + 1) ! 2 = quoted ''active'' @ '' = $4''
   \<and> (map snd sample_data @ nonNullValues other_filters) ! (4 - 1) = snd (other_filters ! 2)"
  using values_only_in_parameters
      [where w = sample_filters and w' = other_filters and so = "users_select [''*''] None"
         and d = sample_data and d' = sample_data and t = "''users''"
         and start = "length sample_data + 1" and pre = "map snd sample_data"]
    values_only_in_parameters
      [where w = other_filters and w' = other_filters and so = "users_select [''*''] None"
         and d = sample_data and d' = sample_data and t = "''users''"
         and start = "length sample_data + 1" and pre = "map snd sample_data"]
  by (simp add: same_shape_def sample_filters_def other_filters_def sample_data_def
      spec_conditions_def spec_condition_def spec_assignments_def upt_3 upt_2 show_nat_small
      numeral_2_eq_2 take_Suc_conv_app_nth escapeIdentifier_def quoted_def)

section \<open>Placeholder numbering\<close>

text \<open>
  Claim C5. Placeholders are numbered in text order from \<open>$1\<close>: in a Select and a Delete
  over the filters, in an Insert over the values, in an Update over the values first and
  then the filters. The parameters follow the same order. A null filter compiles to
  \<^verbatim>\<open><col> IS NULL\<close> and adds no placeholder and no parameter; a non-null filter adds
  exactly one placeholder and one parameter, at the matching position.
\<close>

theorem placeholders_sequential:
  "buildWhereClause w start =
     (if w = [] then [] else ''WHERE '' @ join '' AND '' (spec_conditions w start),
      nonNullValues w)
   \<and> (sel_where so = Some w \<longrightarrow>
        buildSelectQuery so =
          \<lparr>sql = ''SELECT '' @ select_columns (sel_columns so) @ '' FROM '' @
                 escapeIdentifier (sel_table so) @
                 (if w = [] then [] else '' WHERE '' @ join '' AND '' (spec_conditions w 1)) @
                 select_orderBy (sel_orderBy so) @
                 '' LIMIT '' @ show_int (select_limit (sel_limit so)) @
                 select_offset (sel_offset so),
           params = nonNullValues w\<rparr>)
   \<and> (sel_where so = None \<longrightarrow> params (buildSelectQuery so) = [])
   \<and> (d \<noteq> [] \<and> w \<noteq> [] \<longrightarrow>
        buildUpdateQuery \<lparr>upd_table = t, upd_data = d, upd_where = w\<rparr> =
          Inr \<lparr>sql = ''UPDATE '' @ escapeIdentifier t @ '' SET '' @
                    join '', '' (spec_assignments d) @
                    '' WHERE '' @ join '' AND '' (spec_conditions w (length d + 1)) @
                    '' RETURNING *'',
               params = map snd d @ nonNullValues w\<rparr>)
   \<and> (w \<noteq> [] \<longrightarrow>
        buildDeleteQuery \<lparr>del_table = t, del_where = w\<rparr> =
          Inr \<lparr>sql = ''DELETE FROM '' @ escapeIdentifier t @
                    '' WHERE '' @ join '' AND '' (spec_conditions w 1) @ '' RETURNING *'',
               params = nonNullValues w\<rparr>)
   \<and> (d \<noteq> [] \<longrightarrow>
        buildInsertQuery \<lparr>ins_table = t, ins_data = d\<rparr> =
          Inr \<lparr>sql = ''INSERT INTO '' @ escapeIdentifier t @ '' ('' @
                    join '', '' (map (\<lambda>e. escapeIdentifier (fst e)) d) @
                    '') VALUES ('' @ join '', '' (placeholders (length d)) @ '') RETURNING *'',
               params = map snd d\<rparr>)
   \<and> (\<forall>i<length d.
        spec_assignments d ! i = escapeIdentifier (fst (d ! i)) @ '' = $'' @ show_nat (i + 1) \<and>
        placeholders (length d) ! i = ''$'' @ show_nat (i + 1) \<and>
        (map snd d @ nonNullValues w) ! i = snd (d ! i))
   \<and> (\<forall>j<length w.
        spec_conditions w start ! j =
          (if snd (w ! j) = JNull then escapeIdentifier (fst (w ! j)) @ '' IS NULL''
           else escapeIdentifier (fst (w ! j)) @ '' = $'' @
                show_nat (start + length (nonNullValues (take j w)))))
   \<and> (\<forall>j<length w. snd (w ! j) \<noteq> JNull \<longrightarrow>
        length (nonNullValues (take j w)) < length (nonNullValues w) \<and>
        nonNullValues w ! length (nonNullValues (take j w)) = snd (w ! j) \<and>
        (map snd d @ nonNullValues w) ! (length d + length (nonNullValues (take j w))) =
          snd (w ! j))
   \<and> (\<forall>j<length w.
        length (nonNullValues (take (Suc j) w)) =
          length (nonNullValues (take j w)) + (if snd (w ! j) = JNull then 0 else 1))"
proof (intro conjI)
  show "buildWhereClause w start =
     (if w = [] then [] else ''WHERE '' @ join '' AND '' (spec_conditions w start),
      nonNullValues w)"
    by (simp add: buildWhereClause_eq whereConditions_spec)
next
  show "\<forall>i<length d.
        spec_assignments d ! i = escapeIdentifier (fst (d ! i)) @ '' = $'' @ show_nat (i + 1) \<and>
        placeholders (length d) ! i = ''$'' @ show_nat (i + 1) \<and>
        (map snd d @ nonNullValues w) ! i = snd (d ! i)"
    by (simp add: spec_assignments_def placeholders_def nth_append)
next
  show "\<forall>j<length w.
        spec_conditions w start ! j =
          (if snd (w ! j) = JNull then escapeIdentifier (fst (w ! j)) @ '' IS NULL''
           else escapeIdentifier (fst (w ! j)) @ '' = $'' @
                show_nat (start + length (nonNullValues (take j w))))"
    by (simp add: spec_conditions_def spec_condition_def)
next
  show "\<forall>j<length w. snd (w ! j) \<noteq> JNull \<longrightarrow>
        length (nonNullValues (take j w)) < length (nonNullValues w) \<and>
        nonNullValues w ! length (nonNullValues (take j w)) = snd (w ! j) \<and>
        (map snd d @ nonNullValues w) ! (length d + length (nonNullValues (take j w))) =
          snd (w ! j)"
    using nonNullValues_nth [of _ w] by (simp add: nth_append)
next
  show "\<forall>j<length w.
        length (nonNullValues (take (Suc j) w)) =
          length (nonNullValues (take j w)) + (if snd (w ! j) = JNull then 0 else 1)"
    using nonNullValues_take_Suc [of _ w] by blast
qed (simp_all add: buildSelectQuery_where buildSelectQuery_nowhere buildUpdateQuery_ok
      buildDeleteQuery_ok buildInsertQuery_ok)

theorem placeholders_sequential_witness:
  "sample_data \<noteq> [] \<and> sample_filters \<noteq> []
   \<and> buildUpdateQuery \<lparr>upd_table = ''users'', upd_data = sample_data, upd_where = sample_filters\<rparr> =
       Inr \<lparr>sql = ''UPDATE '' @ escapeIdentifier ''users'' @ '' SET '' @
                 escapeIdentifier ''name'' @ '' = $1, '' @ escapeIdentifier ''note'' @ '' = $2'' @
                 '' WHERE '' @ escapeIdentifier ''id'' @ '' = $3 AND '' @
                 escapeIdentifier ''deleted_at'' @ '' IS NULL AND '' @
                 escapeIdentifier ''active'' @ '' = $4 RETURNING *'',
            params = [JStr ''Jane'', JNull, JNum 1, JBool True]\<rparr>
   \<and> (2::nat) < length sample_filters \<and> snd (sample_filters ! 2) \<noteq> JNull
   \<and> (map snd sample_data @ nonNullValues sample_filters) !
       (length sample_data + length (nonNullValues (take 2 sample_filters))) = JBool True"
  using placeholders_sequential [of sample_filters 1 "users_select [] None" sample_data "''users''"]
  by (simp add: sample_data_def sample_filters_def spec_conditions_def spec_condition_def
      spec_assignments_def upt_3 upt_2 show_nat_small numeral_2_eq_2 take_Suc_conv_app_nth)

section \<open>Empty maps\<close>

text \<open>
  Claim C3. An Insert with no values, an Update with no values or no filters and a Delete
  with no filters are rejected with an error; the executor then sends no query to the
  database. A query that is compiled has at least one value (Insert, Update) and a WHERE
  clause with one condition for each filter, at least one (Update, Delete).
\<close>

theorem empty_maps_rejected:
  "(ins_data io = [] \<longrightarrow>
      buildInsertQuery io = Inl (Error ''No data provided for insert'') \<and>
      filter is_query (fst (executeInsert drv cfg io)) = [])
   \<and> (upd_data uo = [] \<longrightarrow>
      buildUpdateQuery uo = Inl (Error ''No data provided for update'') \<and>
      filter is_query (fst (executeUpdate drv cfg uo)) = [])
   \<and> (upd_data uo \<noteq> [] \<and> upd_where uo = [] \<longrightarrow>
      buildUpdateQuery uo = Inl (Error ''WHERE clause required for update'') \<and>
      filter is_query (fst (executeUpdate drv cfg uo)) = [])
   \<and> (del_where dl = [] \<longrightarrow>
      buildDeleteQuery dl = Inl (Error ''WHERE clause required for delete'') \<and>
      filter is_query (fst (executeDelete drv cfg dl)) = [])
   \<and> (\<forall>q. buildInsertQuery io = Inr q \<longrightarrow>
        ins_data io \<noteq> [] \<and> length (params q) = length (ins_data io))
   \<and> (\<forall>q. buildUpdateQuery uo = Inr q \<longrightarrow>
        upd_data uo \<noteq> [] \<and> upd_where uo \<noteq> [] \<and>
        length (spec_conditions (upd_where uo) (length (upd_data uo) + 1)) = length (upd_where uo) \<and>
        sql q = ''UPDATE '' @ escapeIdentifier (upd_table uo) @ '' SET '' @
                join '', '' (spec_assignments (upd_data uo)) @
                '' WHERE '' @
                join '' AND '' (spec_conditions (upd_where uo) (length (upd_data uo) + 1)) @
                '' RETURNING *'')
   \<and> (\<forall>q. buildDeleteQuery dl = Inr q \<longrightarrow>
        del_where dl \<noteq> [] \<and>
        length (spec_conditions (del_where dl) 1) = length (del_where dl) \<and>
        sql q = ''DELETE FROM '' @ escapeIdentifier (del_table dl) @
                '' WHERE '' @ join '' AND '' (spec_conditions (del_where dl) 1) @
                '' RETURNING *'')"
proof (intro conjI)
  show "ins_data io = [] \<longrightarrow>
      buildInsertQuery io = Inl (Error ''No data provided for insert'') \<and>
      filter is_query (fst (executeInsert drv cfg io)) = []"
    by (simp add: executeInsert_rejected buildInsertQuery_def)
next
  show "upd_data uo = [] \<longrightarrow>
      buildUpdateQuery uo = Inl (Error ''No data provided for update'') \<and>
      filter is_query (fst (executeUpdate drv cfg uo)) = []"
    by (simp add: executeUpdate_rejected buildUpdateQuery_def)
next
  show "upd_data uo \<noteq> [] \<and> upd_where uo = [] \<longrightarrow>
      buildUpdateQuery uo = Inl (Error ''WHERE clause required for update'') \<and>
      filter is_query (fst (executeUpdate drv cfg uo)) = []"
    by (simp add: executeUpdate_rejected buildUpdateQuery_def)
next
  show "del_where dl = [] \<longrightarrow>
      buildDeleteQuery dl = Inl (Error ''WHERE clause required for delete'') \<and>
      filter is_query (fst (executeDelete drv cfg dl)) = []"
    by (simp add: executeDelete_rejected buildDeleteQuery_def)
next
  show "\<forall>q. buildInsertQuery io = Inr q \<longrightarrow>
        ins_data io \<noteq> [] \<and> length (params q) = length (ins_data io)"
    by (auto simp add: buildInsertQuery_def Let_def split: if_splits)
next
  show "\<forall>q. buildUpdateQuery uo = Inr q \<longrightarrow>
        upd_data uo \<noteq> [] \<and> upd_where uo \<noteq> [] \<and>
        length (spec_conditions (upd_where uo) (length (upd_data uo) + 1)) = length (upd_where uo) \<and>
        sql q = ''UPDATE '' @ escapeIdentifier (upd_table uo) @ '' SET '' @
                join '', '' (spec_assignments (upd_data uo)) @
                '' WHERE '' @
                join '' AND '' (spec_conditions (upd_where uo) (length (upd_data uo) + 1)) @
                '' RETURNING *''"
    by (auto simp add: buildUpdateQuery_def Let_def buildWhereClause_eq whereConditions_spec
        setClauses_spec spec_conditions_def split: if_splits)
next
  show "\<forall>q. buildDeleteQuery dl = Inr q \<longrightarrow>
        del_where dl \<noteq> [] \<and>
        length (spec_conditions (del_where dl) 1) = length (del_where dl) \<and>
        sql q = ''DELETE FROM '' @ escapeIdentifier (del_table dl) @
                '' WHERE '' @ join '' AND '' (spec_conditions (del_where dl) 1) @
                '' RETURNING *''"
    by (auto simp add: buildDeleteQuery_def Let_def buildWhereClause_eq whereConditions_spec
        spec_conditions_def split: if_splits)
qed

theorem empty_maps_rejected_witness:
  "ins_data \<lparr>ins_table = ''users'', ins_data = []\<rparr> = []
   \<and> buildInsertQuery \<lparr>ins_table = ''users'', ins_data = []\<rparr> =
       Inl (Error ''No data provided for insert'')
   \<and> upd_data no_filters_update \<noteq> [] \<and> upd_where no_filters_update = []
   \<and> buildUpdateQuery no_filters_update = Inl (Error ''WHERE clause required for update'')
   \<and> fst (executeUpdate refusing_driver sample_config no_filters_update) =
       [PoolNew sample_config, PoolEnd]
   \<and> del_where \<lparr>del_table = ''users'', del_where = []\<rparr> = []
   \<and> buildDeleteQuery \<lparr>del_table = ''users'', del_where = []\<rparr> =
       Inl (Error ''WHERE clause required for delete'')"
  using empty_maps_rejected
      [of "\<lparr>ins_table = ''users'', ins_data = []\<rparr>" refusing_driver sample_config
          no_filters_update "\<lparr>del_table = ''users'', del_where = []\<rparr>"]
    executeUpdate_rejected [of no_filters_update _ refusing_driver sample_config]
  by (simp add: no_filters_update_def sample_data_def)

section \<open>Pool teardown\<close>

text \<open>
  Claim C6. Every pool opened by an executor function or by the introspector is ended
  exactly once on every path: the trace of a call starts with the creation of the pool,
  continues with queries only, and ends with the single \<^verbatim>\<open>pool.end()\<close>, whatever the
  driver answers and whether the compiler or a query fails. The teardown precedes the
  return: when a query is rejected, the call ends the pool and then rejects with the error
  of the query.
\<close>

theorem pool_torn_down_exactly_once:
  "torn_down_once cfg (fst (executeSelect drv cfg so))
   \<and> torn_down_once cfg (fst (executeInsert drv cfg io))
   \<and> torn_down_once cfg (fst (executeUpdate drv cfg uo))
   \<and> torn_down_once cfg (fst (executeDelete drv cfg dl))
   \<and> torn_down_once cfg (fst (introspectPostgresSchema drv cfg))
   \<and> torn_down_once cfg (fst (getTableRowCount drv cfg tableName))
   \<and> (torn_down_once cfg tr \<longrightarrow>
        length (filter (\<lambda>e. e = PoolEnd) tr) = 1 \<and> last tr = PoolEnd \<and> hd tr = PoolNew cfg)
   \<and> (query_reply drv [PoolNew cfg] (sql (buildSelectQuery so)) (params (buildSelectQuery so)) = Inl err \<and>
       end_reply drv
         [PoolNew cfg, PoolQuery (sql (buildSelectQuery so)) (params (buildSelectQuery so))] = None \<longrightarrow>
        executeSelect drv cfg so =
          ([PoolNew cfg, PoolQuery (sql (buildSelectQuery so)) (params (buildSelectQuery so)), PoolEnd],
           Inl err))
   \<and> (query_reply drv [PoolNew cfg] TABLES_SQL [] = Inl err \<and>
       end_reply drv [PoolNew cfg, PoolQuery TABLES_SQL []] = None \<longrightarrow>
        introspectPostgresSchema drv cfg =
          ([PoolNew cfg, PoolQuery TABLES_SQL [], PoolEnd], Inl err))"
proof (intro conjI)
  show "torn_down_once cfg tr \<longrightarrow>
        length (filter (\<lambda>e. e = PoolEnd) tr) = 1 \<and> last tr = PoolEnd \<and> hd tr = PoolNew cfg"
    using torn_down_once_count [of cfg tr] by blast
next
  show "query_reply drv [PoolNew cfg] (sql (buildSelectQuery so)) (params (buildSelectQuery so)) = Inl err \<and>
       end_reply drv
         [PoolNew cfg, PoolQuery (sql (buildSelectQuery so)) (params (buildSelectQuery so))] = None \<longrightarrow>
        executeSelect drv cfg so =
          ([PoolNew cfg, PoolQuery (sql (buildSelectQuery so)) (params (buildSelectQuery so)), PoolEnd],
           Inl err)"
    by (simp add: executeSelect_def Let_def try_finally_def pool_query_def pool_end_def)
next
  show "query_reply drv [PoolNew cfg] TABLES_SQL [] = Inl err \<and>
       end_reply drv [PoolNew cfg, PoolQuery TABLES_SQL []] = None \<longrightarrow>
        introspectPostgresSchema drv cfg =
          ([PoolNew cfg, PoolQuery TABLES_SQL [], PoolEnd], Inl err)"
    by (simp add: introspectPostgresSchema_def try_finally_def pool_query_def pool_end_def)
qed (rule executeSelect_torn_down executeInsert_torn_down executeUpdate_torn_down
      executeDelete_torn_down introspect_torn_down rowCount_torn_down)+

theorem pool_torn_down_exactly_once_witness:
  "torn_down_once sample_config
     (fst (introspectPostgresSchema refusing_driver sample_config))
   \<and> length (filter (\<lambda>e. e = PoolEnd)
        (fst (introspectPostgresSchema refusing_driver sample_config))) = 1
   \<and> query_reply refusing_driver [PoolNew sample_config] TABLES_SQL [] =
       Inl (Error ''Connection refused'')
   \<and> introspectPostgresSchema refusing_driver sample_config =
       ([PoolNew sample_config, PoolQuery TABLES_SQL [], PoolEnd], Inl (Error ''Connection refused''))
   \<and> snd (executeSelect refusing_driver sample_config (users_select [''*''] None)) =
       Inl (Error ''Connection refused'')"
  using pool_torn_down_exactly_once
      [of sample_config refusing_driver "users_select [''*''] None" _ _ _ "''users''"
          "fst (introspectPostgresSchema refusing_driver sample_config)"
          "Error ''Connection refused''"]
  by (simp add: refusing_driver_def refuse_reply_def end_ok_def torn_down_once_def)

section \<open>Identifier escaping\<close>

text \<open>
  Claim C2. The claim asks for every embedded double quote of an identifier to be doubled.
  The compiler replaces it by a backslash and a double quote instead: for the name
  \<^verbatim>\<open>a"b\<close> it emits \<^verbatim>\<open>"a\"b"\<close>, not \<^verbatim>\<open>"a""b"\<close>, as a column of a Select shows.
\<close>

theorem escapeIdentifier_backslash:
  "escapeIdentifier quoted_name = [dquote, CHR ''a'', backslash, dquote, CHR ''b'', dquote]
   \<and> spec_escapeIdentifier quoted_name = [dquote, CHR ''a'', dquote, dquote, CHR ''b'', dquote]
   \<and> escapeIdentifier quoted_name \<noteq> spec_escapeIdentifier quoted_name
   \<and> sql (buildSelectQuery (users_select [quoted_name] None)) =
       ''SELECT '' @ [dquote, CHR ''a'', backslash, dquote, CHR ''b'', dquote] @
       '' FROM '' @ [dquote] @ ''users'' @ [dquote] @ '' LIMIT 1000''"
  by (simp add: escapeIdentifier_def spec_escapeIdentifier_def quoted_name_def
      buildSelectQuery_def users_select_def select_where_def select_columns_def
      select_orderBy_def select_limit_def MAX_ROWS_def select_offset_def show_int_1000)

section \<open>Determinism\<close>

text \<open>
  Claim C8. Compilation is a function of the descriptor alone: two descriptors with equal
  fields compile to the same text and the same parameters (or to the same error), and the
  query the executor sends is the compiled one, whatever the driver and its history.
\<close>

theorem compilation_deterministic:
  "(sel_table so = sel_table so' \<and> sel_columns so = sel_columns so' \<and>
    sel_where so = sel_where so' \<and> sel_orderBy so = sel_orderBy so' \<and>
    sel_limit so = sel_limit so' \<and> sel_offset so = sel_offset so' \<longrightarrow>
      sql (buildSelectQuery so) = sql (buildSelectQuery so') \<and>
      params (buildSelectQuery so) = params (buildSelectQuery so'))
   \<and> (ins_table io = ins_table io' \<and> ins_data io = ins_data io' \<longrightarrow>
      buildInsertQuery io = buildInsertQuery io')
   \<and> (upd_table uo = upd_table uo' \<and> upd_data uo = upd_data uo' \<and> upd_where uo = upd_where uo' \<longrightarrow>
      buildUpdateQuery uo = buildUpdateQuery uo')
   \<and> (del_table dl = del_table dl' \<and> del_where dl = del_where dl' \<longrightarrow>
      buildDeleteQuery dl = buildDeleteQuery dl')
   \<and> filter is_query (fst (executeSelect drv cfg so)) =
       [PoolQuery (sql (buildSelectQuery so)) (params (buildSelectQuery so))]"
  by (simp add: buildSelectQuery_def buildInsertQuery_def buildUpdateQuery_def
      buildDeleteQuery_def executeSelect_def Let_def try_finally_def pool_query_def pool_end_def
      split: prod.splits sum.splits option.splits)

theorem compilation_deterministic_witness:
  "sel_table (users_select [''id''] (Some 10)) = sel_table (users_select [''id''] (Some 10))
   \<and> sql (buildSelectQuery (users_select [''id''] (Some 10))) =
     sql (buildSelectQuery (users_select [''id''] (Some 10)))
   \<and> del_where \<lparr>del_table = ''users'', del_where = sample_filters\<rparr> = sample_filters
   \<and> buildDeleteQuery \<lparr>del_table = ''users'', del_where = sample_filters\<rparr> =
     buildDeleteQuery \<lparr>del_table = ''users'', del_where = sample_filters\<rparr>"
  using compilation_deterministic
      [of "users_select [''id''] (Some 10)" "users_select [''id''] (Some 10)"
          "\<lparr>ins_table = ''users'', ins_data = sample_data\<rparr>"
          "\<lparr>ins_table = ''users'', ins_data = sample_data\<rparr>"
          "\<lparr>upd_table = ''users'', upd_data = sample_data, upd_where = sample_filters\<rparr>"
          "\<lparr>upd_table = ''users'', upd_data = sample_data, upd_where = sample_filters\<rparr>"
          "\<lparr>del_table = ''users'', del_where = sample_filters\<rparr>"
          "\<lparr>del_table = ''users'', del_where = sample_filters\<rparr>"
          refusing_driver sample_config]
  by simp

section \<open>The row-count estimator\<close>

text \<open>
  Claim C7, as stated, fails at the threshold itself: an estimate of exactly 10000 does
  not exceed 10000, yet it is returned and no \<^verbatim>\<open>COUNT(*)\<close> is sent.
\<close>

theorem rowcount_threshold_counterexample:
  "parseInt ''10000'' = Num 10000
   \<and> \<not> (10000 < (10000::int))
   \<and> query_reply (estimate_driver ''10000'' ''9999'') [PoolNew sample_config] ESTIMATE_SQL
       [JStr ''orders''] =
      Inr \<lparr>rows = [[(''estimate'', JStr ''10000'')]], rowCount = Some 1\<rparr>
   \<and> getTableRowCount (estimate_driver ''10000'' ''9999'') sample_config ''orders'' =
      ([PoolNew sample_config, PoolQuery ESTIMATE_SQL [JStr ''orders''], PoolEnd],
       Inr (Num 10000))"
  by (simp add: parseInt_10000 getTableRowCount_def try_finally_def pool_query_def pool_end_def
      estimate_driver_def estimate_reply_def end_ok_def first_field_or_zero_def field_def
      parseInt_val_def is_small_def)

text \<open>
  Claim C7, amended. When the catalog estimate reads as an integer \<open>e\<close>, the estimator
  returns \<open>e\<close> without any further query exactly when \<open>e\<close> is at least 10000; when \<open>e\<close>
  is below 10000 it sends the exact \<^verbatim>\<open>COUNT(*)\<close> and returns its result.
\<close>

theorem rowcount_threshold:
  "query_reply drv [PoolNew cfg] ESTIMATE_SQL [JStr tableName] = Inr er \<and>
   parseInt_val (first_field_or_zero (rows er) ''estimate'') = Num e \<longrightarrow>
     (10000 \<le> e \<longrightarrow>
        filter is_query (fst (getTableRowCount drv cfg tableName)) =
          [PoolQuery ESTIMATE_SQL [JStr tableName]] \<and>
        (end_reply drv [PoolNew cfg, PoolQuery ESTIMATE_SQL [JStr tableName]] = None \<longrightarrow>
           snd (getTableRowCount drv cfg tableName) = Inr (Num e)))
     \<and> (e < 10000 \<longrightarrow>
        filter is_query (fst (getTableRowCount drv cfg tableName)) =
          [PoolQuery ESTIMATE_SQL [JStr tableName], PoolQuery (COUNT_SQL tableName) []] \<and>
        (\<forall>cr. query_reply drv [PoolNew cfg, PoolQuery ESTIMATE_SQL [JStr tableName]]
                (COUNT_SQL tableName) [] = Inr cr \<and>
              end_reply drv
                [PoolNew cfg, PoolQuery ESTIMATE_SQL [JStr tableName],
                 PoolQuery (COUNT_SQL tableName) []] = None \<longrightarrow>
           snd (getTableRowCount drv cfg tableName) =
             Inr (parseInt_val (first_field_or_zero (rows cr) ''count''))))"
proof (intro impI, elim conjE)
  assume q: "query_reply drv [PoolNew cfg] ESTIMATE_SQL [JStr tableName] = Inr er"
    and e: "parseInt_val (first_field_or_zero (rows er) ''estimate'') = Num e"
  have large: "10000 \<le> e \<Longrightarrow>
      \<not> is_small (parseInt_val (first_field_or_zero (rows er) ''estimate''))"
    by (simp add: e is_small_def)
  have small: "e < 10000 \<Longrightarrow>
      is_small (parseInt_val (first_field_or_zero (rows er) ''estimate''))"
    by (simp add: e is_small_def)
  show "(10000 \<le> e \<longrightarrow>
        filter is_query (fst (getTableRowCount drv cfg tableName)) =
          [PoolQuery ESTIMATE_SQL [JStr tableName]] \<and>
        (end_reply drv [PoolNew cfg, PoolQuery ESTIMATE_SQL [JStr tableName]] = None \<longrightarrow>
           snd (getTableRowCount drv cfg tableName) = Inr (Num e)))
     \<and> (e < 10000 \<longrightarrow>
        filter is_query (fst (getTableRowCount drv cfg tableName)) =
          [PoolQuery ESTIMATE_SQL [JStr tableName], PoolQuery (COUNT_SQL tableName) []] \<and>
        (\<forall>cr. query_reply drv [PoolNew cfg, PoolQuery ESTIMATE_SQL [JStr tableName]]
                (COUNT_SQL tableName) [] = Inr cr \<and>
              end_reply drv
                [PoolNew cfg, PoolQuery ESTIMATE_SQL [JStr tableName],
                 PoolQuery (COUNT_SQL tableName) []] = None \<longrightarrow>
           snd (getTableRowCount drv cfg tableName) =
             Inr (parseInt_val (first_field_or_zero (rows cr) ''count''))))"
  proof (intro conjI impI)
    assume l: "10000 \<le> e"
    show "filter is_query (fst (getTableRowCount drv cfg tableName)) =
          [PoolQuery ESTIMATE_SQL [JStr tableName]]"
      by (simp add: getTableRowCount_large [OF q large [OF l]])
    assume "end_reply drv [PoolNew cfg, PoolQuery ESTIMATE_SQL [JStr tableName]] = None"
    then show "snd (getTableRowCount drv cfg tableName) = Inr (Num e)"
      by (simp add: getTableRowCount_large [OF q large [OF l]] e)
  next
    assume s: "e < 10000"
    show "filter is_query (fst (getTableRowCount drv cfg tableName)) =
          [PoolQuery ESTIMATE_SQL [JStr tableName], PoolQuery (COUNT_SQL tableName) []]"
      by (simp add: getTableRowCount_small [OF q small [OF s]])
    show "\<forall>cr. query_reply drv [PoolNew cfg, PoolQuery ESTIMATE_SQL [JStr tableName]]
                (COUNT_SQL tableName) [] = Inr cr \<and>
              end_reply drv
                [PoolNew cfg, PoolQuery ESTIMATE_SQL [JStr tableName],
                 PoolQuery (COUNT_SQL tableName) []] = None \<longrightarrow>
           snd (getTableRowCount drv cfg tableName) =
             Inr (parseInt_val (first_field_or_zero (rows cr) ''count''))"
      by (simp add: getTableRowCount_small [OF q small [OF s]])
  qed
qed

theorem rowcount_threshold_witness:
  "query_reply (estimate_driver ''10000'' ''9999'') [PoolNew sample_config] ESTIMATE_SQL
       [JStr ''orders''] =
      Inr \<lparr>rows = [[(''estimate'', JStr ''10000'')]], rowCount = Some 1\<rparr>
   \<and> parseInt_val (first_field_or_zero [[(''estimate'', JStr ''10000'')]] ''estimate'') = Num 10000
   \<and> (10000::int) \<le> 10000
   \<and> snd (getTableRowCount (estimate_driver ''10000'' ''9999'') sample_config ''orders'') =
       Inr (Num 10000)
   \<and> parseInt_val (first_field_or_zero [[(''estimate'', JStr ''9999'')]] ''estimate'') = Num 9999
   \<and> (9999::int) < 10000
   \<and> filter is_query (fst (getTableRowCount (estimate_driver ''9999'' ''9990'') sample_config ''orders'')) =
       [PoolQuery ESTIMATE_SQL [JStr ''orders''], PoolQuery (COUNT_SQL ''orders'') []]
   \<and> snd (getTableRowCount (estimate_driver ''9999'' ''9990'') sample_config ''orders'') =
       Inr (Num 9990)"
  using rowcount_threshold
      [of "estimate_driver ''10000'' ''9999''" sample_config "''orders''"
          "\<lparr>rows = [[(''estimate'', JStr ''10000'')]], rowCount = Some 1\<rparr>" 10000]
    rowcount_threshold
      [of "estimate_driver ''9999'' ''9990''" sample_config "''orders''"
          "\<lparr>rows = [[(''estimate'', JStr ''9999'')]], rowCount = Some 1\<rparr>" 9999]
  by (simp add: estimate_driver_def estimate_reply_def end_ok_def first_field_or_zero_def
      field_def parseInt_val_def parseInt_10000 parseInt_9999 parseInt_9990 estimate_ne_count)

text \<open>
  Claim C9. When the estimate is small, the text of the exact count is the table name as
  given, between double quotes, with no escaping of a double quote inside it: for the name
  \<^verbatim>\<open>a"b\<close> the driver receives \<^verbatim>\<open>FROM "a"b"\<close>. Every query of the compiler passes its
  table name through \<^verbatim>\<open>escapeIdentifier\<close>.
\<close>

theorem rowcount_table_name_unescaped:
  "(query_reply drv [PoolNew cfg] ESTIMATE_SQL [JStr tableName] = Inr er \<and>
    is_small (parseInt_val (first_field_or_zero (rows er) ''estimate'')) \<longrightarrow>
      filter is_query (fst (getTableRowCount drv cfg tableName)) =
        [PoolQuery ESTIMATE_SQL [JStr tableName],
         PoolQuery (''SELECT COUNT(*) as count FROM '' @ [dquote] @ tableName @ [dquote]) []])
   \<and> COUNT_SQL quoted_name =
       ''SELECT COUNT(*) as count FROM '' @ [dquote, CHR ''a'', dquote, CHR ''b'', dquote]
   \<and> escapeIdentifier quoted_name = [dquote, CHR ''a'', backslash, dquote, CHR ''b'', dquote]
   \<and> COUNT_SQL quoted_name \<noteq> ''SELECT COUNT(*) as count FROM '' @ escapeIdentifier quoted_name
   \<and> (\<exists>post. sql (buildSelectQuery so) =
         ''SELECT '' @ select_columns (sel_columns so) @ '' FROM '' @
         escapeIdentifier (sel_table so) @ post)
   \<and> (\<forall>q. buildInsertQuery io = Inr q \<longrightarrow>
         (\<exists>post. sql q = ''INSERT INTO '' @ escapeIdentifier (ins_table io) @ post))
   \<and> (\<forall>q. buildUpdateQuery uo = Inr q \<longrightarrow>
         (\<exists>post. sql q = ''UPDATE '' @ escapeIdentifier (upd_table uo) @ post))
   \<and> (\<forall>q. buildDeleteQuery dl = Inr q \<longrightarrow>
         (\<exists>post. sql q = ''DELETE FROM '' @ escapeIdentifier (del_table dl) @ post))"
proof (intro conjI)
  show "query_reply drv [PoolNew cfg] ESTIMATE_SQL [JStr tableName] = Inr er \<and>
    is_small (parseInt_val (first_field_or_zero (rows er) ''estimate'')) \<longrightarrow>
      filter is_query (fst (getTableRowCount drv cfg tableName)) =
        [PoolQuery ESTIMATE_SQL [JStr tableName],
         PoolQuery (''SELECT COUNT(*) as count FROM '' @ [dquote] @ tableName @ [dquote]) []]"
    using getTableRowCount_small [of drv cfg tableName er]
    by (auto simp add: COUNT_SQL_def)
next
  show "COUNT_SQL quoted_name =
       ''SELECT COUNT(*) as count FROM '' @ [dquote, CHR ''a'', dquote, CHR ''b'', dquote]"
    by (simp add: COUNT_SQL_def quoted_name_def)
next
  show "escapeIdentifier quoted_name = [dquote, CHR ''a'', backslash, dquote, CHR ''b'', dquote]"
    by (simp add: escapeIdentifier_def quoted_name_def)
next
  show "COUNT_SQL quoted_name \<noteq> ''SELECT COUNT(*) as count FROM '' @ escapeIdentifier quoted_name"
    by (simp add: COUNT_SQL_def escapeIdentifier_def quoted_name_def)
next
  show "\<exists>post. sql (buildSelectQuery so) =
         ''SELECT '' @ select_columns (sel_columns so) @ '' FROM '' @
         escapeIdentifier (sel_table so) @ post"
    by (simp add: buildSelectQuery_def split: prod.splits)
next
  show "\<forall>q. buildInsertQuery io = Inr q \<longrightarrow>
         (\<exists>post. sql q = ''INSERT INTO '' @ escapeIdentifier (ins_table io) @ post)"
    by (auto simp add: buildInsertQuery_def Let_def split: if_splits)
next
  show "\<forall>q. buildUpdateQuery uo = Inr q \<longrightarrow>
         (\<exists>post. sql q = ''UPDATE '' @ escapeIdentifier (upd_table uo) @ post)"
    by (auto simp add: buildUpdateQuery_def Let_def split: if_splits prod.splits)
next
  show "\<forall>q. buildDeleteQuery dl = Inr q \<longrightarrow>
         (\<exists>post. sql q = ''DELETE FROM '' @ escapeIdentifier (del_table dl) @ post)"
    by (auto simp add: buildDeleteQuery_def Let_def split: if_splits prod.splits)
qed

theorem rowcount_table_name_unescaped_witness:
  "query_reply (estimate_driver ''5'' ''7'') [PoolNew sample_config] ESTIMATE_SQL [JStr quoted_name] =
     Inr \<lparr>rows = [[(''estimate'', JStr ''5'')]], rowCount = Some 1\<rparr>
   \<and> is_small (parseInt_val (first_field_or_zero [[(''estimate'', JStr ''5'')]] ''estimate''))
   \<and> filter is_query (fst (getTableRowCount (estimate_driver ''5'' ''7'') sample_config quoted_name)) =
       [PoolQuery ESTIMATE_SQL [JStr quoted_name],
        PoolQuery (''SELECT COUNT(*) as count FROM '' @ [dquote, CHR ''a'', dquote, CHR ''b'', dquote]) []]
   \<and> (\<exists>q. buildDeleteQuery \<lparr>del_table = quoted_name, del_where = sample_filters\<rparr> = Inr q \<and>
        (\<exists>post. sql q = ''DELETE FROM '' @ [dquote, CHR ''a'', backslash, dquote, CHR ''b'', dquote] @ post))"
  using rowcount_table_name_unescaped
      [of "estimate_driver ''5'' ''7''" sample_config quoted_name
          "\<lparr>rows = [[(''estimate'', JStr ''5'')]], rowCount = Some 1\<rparr>"
          "users_select [''*''] None"
          "\<lparr>ins_table = ''users'', ins_data = sample_data\<rparr>"
          "\<lparr>upd_table = ''users'', upd_data = sample_data, upd_where = sample_filters\<rparr>"
          "\<lparr>del_table = quoted_name, del_where = sample_filters\<rparr>"]
    buildDeleteQuery_ok [of sample_filters quoted_name]
  by (simp add: estimate_driver_def estimate_reply_def first_field_or_zero_def field_def
      parseInt_val_def parseInt_5 is_small_def sample_filters_def quoted_name_def)

end
